theory Spec2Isabelle
  imports Main "HOL-Library.Monad_Syntax"
begin

section \<open>JavaScript values\<close>

text \<open>
  The sources are TypeScript that runs as JavaScript. A string is a list of 16-bit code
  units; no function here computes with a code unit, they are only compared, so a code
  unit is a natural number. \<open>str\<close> turns a literal of this text into its code units. A
  value is a primitive, an array or an object; an object is its class (what
  \<^verbatim>\<open>instanceof\<close> inspects) and the list of its own properties, each key once, in the
  order in which \<^verbatim>\<open>Object.keys\<close> lists them. Numbers are the integers; they are
  carried, compared with 0 and printed, never computed with, and how a number prints is
  left to the runtime (\<open>Number_toString\<close> below), so a number that is not an integer
  behaves here as an integer other than 0 does. Functions and symbols are not among the
  values: a property of an object is always data.
\<close>

type_synonym code_unit = nat

type_synonym jsstring = "code_unit list"

abbreviation str :: "string \<Rightarrow> jsstring" where "str s \<equiv> map of_char s"

abbreviation sq :: code_unit where "sq \<equiv> 39"
abbreviation bs :: code_unit where "bs \<equiv> 92"
abbreviation nl :: code_unit where "nl \<equiv> 10"

datatype cls = PlainObject | ErrorC | SfdxErrorC | SfdxFalconErrorC | SfdxCliErrorC | ShellErrorC

datatype jsval =
    JUndefined
  | JNull
  | JBool bool
  | JNum int
  | JStr jsstring
  | JArr "jsval list"
  | JObj cls "(jsstring \<times> jsval) list"

text \<open>Truthiness, as \<^verbatim>\<open>if (v)\<close>, \<^verbatim>\<open>!v\<close> and \<^verbatim>\<open>a || b\<close> read a value.\<close>

fun truthy :: "jsval \<Rightarrow> bool" where
  "truthy JUndefined = False"
| "truthy JNull = False"
| "truthy (JBool b) = b"
| "truthy (JNum n) = (n \<noteq> 0)"
| "truthy (JStr s) = (s \<noteq> [])"
| "truthy (JArr xs) = True"
| "truthy (JObj c ps) = True"

definition js_or :: "jsval \<Rightarrow> jsval \<Rightarrow> jsval" where
  "js_or a b = (if truthy a then a else b)"

text \<open>\<^verbatim>\<open>x instanceof C\<close> along the class chain
  Error, SfdxError, SfdxFalconError, then SfdxCliError and ShellError.\<close>

fun inherits :: "cls \<Rightarrow> cls \<Rightarrow> bool" where
  "inherits c PlainObject = True"
| "inherits c ErrorC = (c \<noteq> PlainObject)"
| "inherits c SfdxErrorC = (c \<noteq> PlainObject \<and> c \<noteq> ErrorC)"
| "inherits c SfdxFalconErrorC = (c = SfdxFalconErrorC \<or> c = SfdxCliErrorC \<or> c = ShellErrorC)"
| "inherits c SfdxCliErrorC = (c = SfdxCliErrorC)"
| "inherits c ShellErrorC = (c = ShellErrorC)"

fun instanceof :: "jsval \<Rightarrow> cls \<Rightarrow> bool" where
  "instanceof (JObj c ps) d = inherits c d"
| "instanceof v d = False"

fun lookup :: "jsstring \<Rightarrow> (jsstring \<times> jsval) list \<Rightarrow> jsval" where
  "lookup k [] = JUndefined"
| "lookup k ((k', v) # ps) = (if k = k' then v else lookup k ps)"

fun set_prop :: "jsstring \<Rightarrow> jsval \<Rightarrow> (jsstring \<times> jsval) list \<Rightarrow> (jsstring \<times> jsval) list" where
  "set_prop k v [] = [(k, v)]"
| "set_prop k v ((k', w) # ps) = (if k = k' then (k, v) # ps else (k', w) # set_prop k v ps)"

text \<open>
  Reading a property. An own property wins; otherwise the prototype answers:
  \<^verbatim>\<open>Error.prototype\<close> gives \<^verbatim>\<open>name\<close> and \<^verbatim>\<open>message\<close> their defaults, and
  \<^verbatim>\<open>SfdxFalconError.prototype\<close> has the getters \<^verbatim>\<open>detail\<close>, \<^verbatim>\<open>debugInfo\<close>, \<^verbatim>\<open>devInfo\<close>,
  \<^verbatim>\<open>resultStack\<close> and \<^verbatim>\<open>userInfo\<close>, each returning the private member of that name.
  Reading a property of \<^verbatim>\<open>undefined\<close> or \<^verbatim>\<open>null\<close> throws a TypeError: \<open>get_prop\<close> is \<open>None\<close>.
\<close>

definition getters :: "jsstring list" where
  "getters = [str ''detail'', str ''debugInfo'', str ''devInfo'', str ''resultStack'', str ''userInfo'']"

fun read_prop :: "jsval \<Rightarrow> jsstring \<Rightarrow> jsval" where
  "read_prop (JObj c ps) k =
     (if k \<in> fst ` set ps then lookup k ps
      else if inherits c SfdxFalconErrorC \<and> k \<in> set getters then lookup (str ''_'' @ k) ps
      else if c \<noteq> PlainObject \<and> k = str ''name'' then JStr (str ''Error'')
      else if c \<noteq> PlainObject \<and> k = str ''message'' then JStr []
      else JUndefined)"
| "read_prop (JArr xs) k = (if k = str ''length'' then JNum (int (length xs)) else JUndefined)"
| "read_prop (JStr s) k = (if k = str ''length'' then JNum (int (length s)) else JUndefined)"
| "read_prop v k = JUndefined"

fun get_prop :: "jsval \<Rightarrow> jsstring \<Rightarrow> jsval option" where
  "get_prop JUndefined k = None"
| "get_prop JNull k = None"
| "get_prop v k = Some (read_prop v k)"

text \<open>\<^verbatim>\<open>a.k1.k2\<close>: each step is a property read, and throws on \<^verbatim>\<open>undefined\<close> or
  \<^verbatim>\<open>null\<close>.\<close>

fun get_path :: "jsval \<Rightarrow> jsstring list \<Rightarrow> jsval option" where
  "get_path v [] = Some v"
| "get_path v (k # ks) = (case get_prop v k of None \<Rightarrow> None | Some w \<Rightarrow> get_path w ks)"

text \<open>
  The own enumerable properties of an object, which \<^verbatim>\<open>Object.keys\<close> and the
  \<^verbatim>\<open>isEmpty\<close> of lodash go by: all of them, except that the \<^verbatim>\<open>stack\<close> and the
  \<^verbatim>\<open>message\<close> which the \<^verbatim>\<open>Error\<close> constructor sets are not enumerable.
\<close>

definition enumerable :: "cls \<Rightarrow> (jsstring \<times> jsval) list \<Rightarrow> (jsstring \<times> jsval) list" where
  "enumerable c ps =
     (if c = PlainObject then ps
      else filter (\<lambda>p. fst p \<noteq> str ''message'' \<and> fst p \<noteq> str ''stack'') ps)"

section \<open>What the model takes from outside\<close>

text \<open>
  The sources call into the JavaScript runtime, into node's \<^verbatim>\<open>util\<close>, into the
  \<^verbatim>\<open>chalk\<close> package and into two functions of the module \<^verbatim>\<open>sfdx-falcon-util\<close>, which
  is not among the sources. Each is a parameter of the model, and every theorem holds
  for every choice of them:
  \<^item> \<open>JSON_parse\<close>: \<^verbatim>\<open>JSON.parse\<close>, with \<open>None\<close> for a SyntaxError;
  \<^item> \<open>isNaN\<close>: the answer of the global \<^verbatim>\<open>isNaN\<close> for an argument that converts to a
    number;
  \<^item> \<open>Number_toString\<close>: how a number prints (decimal digits for an integer below
    \<open>2^53\<close> in magnitude, an exponent form from \<open>10^21\<close> on);
  \<^item> \<open>toLowerCase\<close>, \<open>toUpperCase\<close>: the methods of \<^verbatim>\<open>String.prototype\<close>, which follow
    the Unicode case mappings and may change the length of a string;
  \<^item> \<open>inspect v depth\<close>: \<^verbatim>\<open>util.inspect(v, {depth, colors:true})\<close>;
  \<^item> \<open>style colour text\<close>: what a \<^verbatim>\<open>chalk\<close> template makes of \<^verbatim>\<open>{colour text}\<close>;
  \<^item> \<open>detectSalesforceCliError\<close> and \<open>safeParse\<close>: the two functions of
    \<^verbatim>\<open>sfdx-falcon-util\<close> that the executor calls.
\<close>

record js_env =
  JSON_parse :: "jsstring \<Rightarrow> jsval option"
  isNaN :: "jsval \<Rightarrow> bool"
  Number_toString :: "int \<Rightarrow> jsstring"
  toLowerCase :: "jsstring \<Rightarrow> jsstring"
  toUpperCase :: "jsstring \<Rightarrow> jsstring"
  inspect :: "jsval \<Rightarrow> int \<Rightarrow> jsstring"
  style :: "jsstring \<Rightarrow> jsstring \<Rightarrow> jsstring"
  detectSalesforceCliError :: "jsstring \<Rightarrow> bool"
  safeParse :: "jsstring \<Rightarrow> jsval"

section \<open>String conversion\<close>

fun join :: "jsstring \<Rightarrow> jsstring list \<Rightarrow> jsstring" where
  "join sep [] = []"
| "join sep [x] = x"
| "join sep (x # y # ys) = x @ sep @ join sep (y # ys)"

text \<open>
  \<^verbatim>\<open>String(v)\<close>, the interpolation \<^verbatim>\<open>${v}\<close> of a template literal, and the conversion
  that a \<^verbatim>\<open>chalk\<close> template applies to each interpolated value. The result is \<open>None\<close>
  when the conversion throws a TypeError. Converting an object calls its \<^verbatim>\<open>toString\<close>
  method; an object with an own property \<^verbatim>\<open>toString\<close> hides the method of its
  prototype behind a value that cannot be called, and \<^verbatim>\<open>valueOf\<close> then returns the
  object itself or cannot be called either, so the conversion throws. Otherwise an array
  joins its elements with a comma (\<^verbatim>\<open>null\<close> and \<^verbatim>\<open>undefined\<close> elements print as
  nothing), a plain object prints as \<^verbatim>\<open>[object Object]\<close>, and an Error prints as
  \<^verbatim>\<open>name: message\<close>, both converted in their turn.
\<close>

function ToString :: "js_env \<Rightarrow> jsval \<Rightarrow> jsstring option" where
  "ToString env JUndefined = Some (str ''undefined'')"
| "ToString env JNull = Some (str ''null'')"
| "ToString env (JBool b) = Some (if b then str ''true'' else str ''false'')"
| "ToString env (JNum n) = Some (Number_toString env n)"
| "ToString env (JStr s) = Some s"
| "ToString env (JArr xs) =
     map_option (join (str '',''))
       (those (map (\<lambda>x. if x = JUndefined \<or> x = JNull then Some [] else ToString env x) xs))"
| "ToString env (JObj c ps) =
     (if str ''toString'' \<in> fst ` set ps then None
      else if c = PlainObject then Some (str ''[object Object]'')
      else
        (case (if str ''name'' \<notin> fst ` set ps then Some (str ''Error'')
               else if lookup (str ''name'') ps = JUndefined then Some (str ''Error'')
               else ToString env (lookup (str ''name'') ps)) of
           None \<Rightarrow> None
         | Some name \<Rightarrow>
             (case (if str ''message'' \<notin> fst ` set ps then Some []
                    else if lookup (str ''message'') ps = JUndefined then Some []
                    else ToString env (lookup (str ''message'') ps)) of
                None \<Rightarrow> None
              | Some msg \<Rightarrow>
                  Some (if name = [] then msg else if msg = [] then name
                        else name @ str '': '' @ msg))))"
  by pat_completeness auto
termination
proof (relation "measure (\<lambda>p. size (snd p))", goal_cases)
  case 1
  show ?case by simp
next
  case (2 env xs x)
  then have "size x < Suc (size_list size xs)"
    by (induction xs) auto
  then show ?case by simp
next
  case (3 env c ps)
  have "size (lookup k ps) < Suc (size_list (size_prod (\<lambda>x. 0) size) ps)" for k
    by (induction ps) auto
  from this [of "str ''name''"] show ?case by simp
next
  case (4 env c ps)
  have "size (lookup k ps) < Suc (size_list (size_prod (\<lambda>x. 0) size) ps)" for k
    by (induction ps) auto
  from this [of "str ''message''"] show ?case by simp
qed

section \<open>The command sanitizer (executors/sfdx.ts)\<close>

subsection \<open>Character classes and string primitives\<close>

text \<open>\<^verbatim>\<open>String.prototype.trim\<close> removes white space and line terminators from both
  ends: TAB, LF, VT, FF, CR, SPACE, NO-BREAK SPACE, the other space separators of Unicode
  (U+1680, U+2000 to U+200A, U+202F, U+205F, U+3000), the two separators U+2028 and
  U+2029, and the byte order mark U+FEFF.\<close>

definition white_space :: "code_unit list" where
  "white_space =
     [0x09, 0x0A, 0x0B, 0x0C, 0x0D, 0x20, 0xA0, 0x1680,
      0x2000, 0x2001, 0x2002, 0x2003, 0x2004, 0x2005, 0x2006, 0x2007, 0x2008, 0x2009, 0x200A,
      0x2028, 0x2029, 0x202F, 0x205F, 0x3000, 0xFEFF]"

definition is_ws :: "code_unit \<Rightarrow> bool" where
  "is_ws c = (c \<in> set white_space)"

definition trim :: "jsstring \<Rightarrow> jsstring" where
  "trim s = rev (dropWhile is_ws (rev (dropWhile is_ws s)))"

definition is_upper :: "code_unit \<Rightarrow> bool" where
  "is_upper c = (65 \<le> c \<and> c \<le> 90)"

definition is_lower :: "code_unit \<Rightarrow> bool" where
  "is_lower c = (97 \<le> c \<and> c \<le> 122)"

definition is_digit :: "code_unit \<Rightarrow> bool" where
  "is_digit c = (48 \<le> c \<and> c \<le> 57)"

text \<open>The class \<^verbatim>\<open>[A-Za-z0-9_\/:=-]\<close> of \<open>sanitizeArgument\<close> and the class
  \<^verbatim>\<open>[a-z0-9-]\<close>, matched ignoring case, of \<open>sanitizeFlag\<close>: without the \<^verbatim>\<open>u\<close> flag, a
  code unit outside ASCII never matches an ASCII letter.\<close>

definition safe_char :: "code_unit \<Rightarrow> bool" where
  "safe_char c = (is_upper c \<or> is_lower c \<or> is_digit c \<or> c \<in> set (str ''_/:=-''))"

definition flag_char :: "code_unit \<Rightarrow> bool" where
  "flag_char c = (is_lower c \<or> is_upper c \<or> is_digit c \<or> c = 45)"

text \<open>\<^verbatim>\<open>s.replace(/'/g, "'\\''")\<close>: every single quote becomes the four characters
  quote, backslash, quote, quote.\<close>

fun escape_quotes :: "jsstring \<Rightarrow> jsstring" where
  "escape_quotes [] = []"
| "escape_quotes (c # cs) = (if c = sq then [sq, bs, sq, sq] @ escape_quotes cs else c # escape_quotes cs)"

text \<open>\<^verbatim>\<open>s.replace(/^(?:'')+/g, '')\<close>: the longest run of quote pairs at the start goes.\<close>

fun strip_leading_pairs :: "jsstring \<Rightarrow> jsstring" where
  "strip_leading_pairs (a # b # cs) = (if a = sq \<and> b = sq then strip_leading_pairs cs else a # b # cs)"
| "strip_leading_pairs cs = cs"

text \<open>\<^verbatim>\<open>s.replace(/\\'''/g, "\\'")\<close>: from left to right, each backslash followed by
  three quotes becomes backslash, quote.\<close>

fun unduplicate :: "jsstring \<Rightarrow> jsstring" where
  "unduplicate (a # b # c # d # cs) =
     (if a = bs \<and> b = sq \<and> c = sq \<and> d = sq then [bs, sq] @ unduplicate cs
      else a # unduplicate (b # c # d # cs))"
| "unduplicate cs = cs"

subsection \<open>sanitizeArgument, sanitizeFlag, parseSfdxCommand\<close>

text \<open>Both sanitizers start with \<^verbatim>\<open>String(argument)\<close>, which throws for a value that
  does not convert: the result is then \<open>None\<close>.\<close>

definition sanitizeArgument :: "js_env \<Rightarrow> jsval \<Rightarrow> jsstring option" where
  "sanitizeArgument env argument =
     do {
       converted \<leftarrow> ToString env argument;
       let argument = trim converted;
       Some (if \<exists>c \<in> set argument. \<not> safe_char c
             then unduplicate (strip_leading_pairs ([sq] @ escape_quotes argument @ [sq]))
             else argument)
     }"

definition sanitizeFlag :: "js_env \<Rightarrow> jsval \<Rightarrow> jsstring option" where
  "sanitizeFlag env flag =
     do {
       converted \<leftarrow> ToString env flag;
       Some (filter flag_char (trim converted))
     }"

text \<open>
  A command definition. \<open>commandFlags\<close> is declared \<^verbatim>\<open>any\<close> and is any value;
  \<open>commandArgs\<close> is an array, whose elements are declared strings and are what they are.
\<close>

record SfdxCommandDefinition =
  command :: jsstring
  progressMsg :: jsstring
  errorMsg :: jsstring
  successMsg :: jsstring
  commandArgs :: "jsval list"
  commandFlags :: jsval
  observer :: jsval

text \<open>The decimal digits of an array index.\<close>

fun index_key :: "nat \<Rightarrow> jsstring" where
  "index_key n = (if n < 10 then [48 + n] else index_key (n div 10) @ [48 + n mod 10])"

text \<open>
  \<^verbatim>\<open>Object.keys(v)\<close>, each key with the value that \<^verbatim>\<open>v[key]\<close> reads: \<^verbatim>\<open>undefined\<close>
  and \<^verbatim>\<open>null\<close> throw a TypeError; an object gives its own enumerable properties, an
  array and a string their indices, a number and a boolean nothing.
\<close>

fun object_entries :: "jsval \<Rightarrow> (jsstring \<times> jsval) list option" where
  "object_entries JUndefined = None"
| "object_entries JNull = None"
| "object_entries (JObj c ps) = Some (enumerable c ps)"
| "object_entries (JArr xs) = Some (zip (map index_key [0 ..< length xs]) xs)"
| "object_entries (JStr s) = Some (zip (map index_key [0 ..< length s]) (map (\<lambda>c. JStr [c]) s))"
| "object_entries v = Some []"

text \<open>A loop whose body may throw: the rounds run in order on the value built so far,
  and the first \<open>None\<close> ends the loop.\<close>

fun for_of :: "('b \<Rightarrow> 'a \<Rightarrow> 'b option) \<Rightarrow> 'b \<Rightarrow> 'a list \<Rightarrow> 'b option" where
  "for_of body acc [] = Some acc"
| "for_of body acc (x # xs) = (case body acc x of None \<Rightarrow> None | Some acc' \<Rightarrow> for_of body acc' xs)"

definition is_boolean :: "jsval \<Rightarrow> bool" where
  "is_boolean v = (case v of JBool b \<Rightarrow> True | _ \<Rightarrow> False)"

text \<open>One round of the loop over the arguments, and one round of the loop over the
  keys of \<open>commandFlags\<close>; each appends to the command built so far.\<close>

definition add_argument :: "js_env \<Rightarrow> jsstring \<Rightarrow> jsval \<Rightarrow> jsstring option" where
  "add_argument env parsedCommand argument =
     do {
       sanitized \<leftarrow> sanitizeArgument env argument;
       Some (parsedCommand @ str '' '' @ sanitized)
     }"

definition add_flag :: "js_env \<Rightarrow> jsstring \<Rightarrow> jsstring \<times> jsval \<Rightarrow> jsstring option" where
  "add_flag env parsedCommand entry =
     (let objectKey = fst entry in
      if toUpperCase env (take 5 objectKey) \<noteq> str ''FLAG_'' then Some parsedCommand
      else
        (let flag = toLowerCase env (drop 5 objectKey);
             val = snd entry;
             hyphen = (if length flag = 1 then str ''-'' else str ''--'')
         in do {
              resolvedFlag \<leftarrow> sanitizeFlag env (JStr (hyphen @ flag));
              if is_boolean val then Some (parsedCommand @ str '' '' @ resolvedFlag)
              else do {
                     sanitized \<leftarrow> sanitizeArgument env val;
                     Some (parsedCommand @ str '' '' @ resolvedFlag @ str '' '' @ sanitized)
                   }
            }))"

definition parseSfdxCommand :: "js_env \<Rightarrow> SfdxCommandDefinition \<Rightarrow> jsstring option" where
  "parseSfdxCommand env sfdxCommand =
     do {
       let parsedCommand = str ''sfdx '' @ command sfdxCommand;
       parsedCommand \<leftarrow> for_of (add_argument env) parsedCommand (commandArgs sfdxCommand);
       entries \<leftarrow> object_entries (commandFlags sfdxCommand);
       for_of (add_flag env) parsedCommand entries
     }"

subsection \<open>What a POSIX shell reads back\<close>

text \<open>
  Quote removal of the POSIX shell (XCU 2.2) on one word, as far as the single quote and
  the backslash go: between single quotes every character stands for itself; outside
  them a backslash makes the next character stand for itself (and swallows a newline);
  any other character that the shell treats specially when unquoted ends the reading
  with \<open>None\<close>, as does a quote left open. The flag says whether a single quote is open.
\<close>

definition special :: "code_unit \<Rightarrow> bool" where
  "special c = (is_ws c \<or> c \<in> set (str ''|&;<>()$`\"*?[#~%''))"

fun shell_word :: "bool \<Rightarrow> jsstring \<Rightarrow> jsstring option" where
  "shell_word quoted [] = (if quoted then None else Some [])"
| "shell_word True (c # cs) =
     (if c = sq then shell_word False cs else map_option ((#) c) (shell_word True cs))"
| "shell_word False [c] = (if c = sq \<or> c = bs \<or> special c then None else Some [c])"
| "shell_word False (c # d # cs) =
     (if c = sq then shell_word True (d # cs)
      else if c = bs then (if d = nl then shell_word False cs else map_option ((#) d) (shell_word False cs))
      else if special c then None
      else map_option ((#) c) (shell_word False (d # cs)))"

text \<open>
  The rendering of one flag entry as the specification words it, with two changes: the
  dash is chosen by the length of the lower-cased name, and a boolean of either value
  is the bare flag. Nothing for a key outside the \<^verbatim>\<open>FLAG_\<close> convention; else a space,
  one dash for a lower-cased name of one character and two otherwise, the lower-cased
  name reduced to letters, digits and dashes, and for a value that is not a boolean a
  space and the sanitized value.
\<close>

definition flag_rendering :: "js_env \<Rightarrow> jsstring \<times> jsval \<Rightarrow> jsstring option" where
  "flag_rendering env entry =
     (case entry of (k, v) \<Rightarrow>
        if toUpperCase env (take 5 k) = str ''FLAG_''
        then
          (let name = toLowerCase env (drop 5 k);
               flag = str '' '' @ (if length name = 1 then str ''-'' else str ''--'')
                      @ filter flag_char name
           in case v of
                JBool b \<Rightarrow> Some flag
              | _ \<Rightarrow> map_option (\<lambda>sanitized. flag @ str '' '' @ sanitized) (sanitizeArgument env v))
        else Some [])"

text \<open>The same rule with the value part as the claim first words it: bare for the
  boolean \<open>true\<close> only, and for any other value a space and the sanitized value.\<close>

definition flag_rendering_true_only :: "js_env \<Rightarrow> jsstring \<times> jsval \<Rightarrow> jsstring option" where
  "flag_rendering_true_only env entry =
     (case entry of (k, v) \<Rightarrow>
        if toUpperCase env (take 5 k) = str ''FLAG_''
        then
          (let name = toLowerCase env (drop 5 k);
               flag = str '' '' @ (if length name = 1 then str ''-'' else str ''--'')
                      @ filter flag_char name
           in if v = JBool True then Some flag
              else map_option (\<lambda>sanitized. flag @ str '' '' @ sanitized) (sanitizeArgument env v))
        else Some [])"

section \<open>The error classes (sfdx-falcon-error/index.ts)\<close>

text \<open>
  \<^verbatim>\<open>isEmpty\<close> of lodash: \<^verbatim>\<open>null\<close>, \<^verbatim>\<open>undefined\<close>, booleans and numbers are empty; a
  string or an array is empty when its length is 0; an object is empty when it has no
  own enumerable property, so a bare \<^verbatim>\<open>new Error(m)\<close> is empty.
\<close>

fun isEmpty :: "jsval \<Rightarrow> bool" where
  "isEmpty (JStr s) = (s = [])"
| "isEmpty (JArr xs) = (xs = [])"
| "isEmpty (JObj c ps) = (enumerable c ps = [])"
| "isEmpty v = True"

text \<open>\<^verbatim>\<open>typeof v === 'string'\<close>, and the characters of a string value.\<close>

definition typeof_string :: "jsval \<Rightarrow> bool" where
  "typeof_string v = (case v of JStr s \<Rightarrow> True | _ \<Rightarrow> False)"

definition str_of :: "jsval \<Rightarrow> jsstring" where
  "str_of v = (case v of JStr s \<Rightarrow> s | _ \<Rightarrow> [])"

text \<open>The constructor of \<open>SfdxFalconErrorInfo\<close>.\<close>

definition SfdxFalconErrorInfo_new :: jsval where
  "SfdxFalconErrorInfo_new =
     JObj PlainObject
       [(str ''title'', JStr (str ''UNKNOWN ERROR'')),
        (str ''message'', JStr (str ''An unknown error has occured'')),
        (str ''actions'', JArr [])]"

text \<open>
  The constructor of \<open>SfdxFalconError\<close>, also run by its subclasses through
  \<^verbatim>\<open>super\<close>: \<open>c\<close> is the class under construction and \<open>stk\<close> the stack trace that
  the runtime records for the new object, if it records one. An argument left out is
  \<open>JUndefined\<close>. The base classes are \<^verbatim>\<open>SfdxError\<close> (package \<^verbatim>\<open>@salesforce/core\<close>) and
  \<^verbatim>\<open>NamedError\<close> (package \<^verbatim>\<open>@salesforce/kit\<close>). \<^verbatim>\<open>NamedError\<close> hands a message that is
  a string to \<^verbatim>\<open>Error\<close> and stores the cause it is given; a message that is not a string
  it takes for the cause, and the object then has no message of its own. Then come
  \<^verbatim>\<open>name\<close>, \<^verbatim>\<open>actions\<close> and \<^verbatim>\<open>exitCode\<close>. No step converts a value to a string, so the
  constructor does not throw.
\<close>

definition SfdxFalconError_new ::
  "cls \<Rightarrow> jsstring option \<Rightarrow> jsval \<Rightarrow> jsval \<Rightarrow> jsval \<Rightarrow> jsval \<Rightarrow> jsval \<Rightarrow> jsval \<Rightarrow> jsval" where
  "SfdxFalconError_new c stk message name source cause actions exitCode =
     (let source = (if source = JUndefined then JStr (str ''Unhandled Exception'') else source);
          thisName = js_or name (JStr (str ''SfdxFalconError''))
      in JObj c
           ((case stk of None \<Rightarrow> [] | Some trace \<Rightarrow> [(str ''stack'', JStr trace)])
            @ (if typeof_string message
               then [(str ''message'', message), (str ''cause'', cause)]
               else [(str ''cause'', message)])
            @ [(str ''name'', thisName),
               (str ''actions'', js_or actions (JArr [])),
               (str ''exitCode'', js_or exitCode (JNum 1)),
               (str ''data'', JObj PlainObject []),
               (str ''source'', source),
               (str ''_detail'', JObj PlainObject []),
               (str ''_userInfo'', SfdxFalconErrorInfo_new),
               (str ''_debugInfo'', SfdxFalconErrorInfo_new),
               (str ''_devInfo'', SfdxFalconErrorInfo_new),
               (str ''_resultStack'',
                  (if truthy cause then js_or (read_prop cause (str ''resultStack'')) (JStr [])
                   else JStr []))]))"

text \<open>Assignment to a property of an object: \<^verbatim>\<open>obj.k = v\<close>.\<close>

fun assign :: "jsval \<Rightarrow> jsstring \<Rightarrow> jsval \<Rightarrow> jsval" where
  "assign (JObj c ps) k v = JObj c (set_prop k v ps)"
| "assign w k v = w"

subsection \<open>rootCause\<close>

function rootCause :: "jsval \<Rightarrow> jsval" where
  "rootCause e =
     (if truthy (read_prop e (str ''cause'')) \<and> isEmpty (read_prop e (str ''cause'')) = False
      then rootCause (read_prop e (str ''cause''))
      else e)"
  by pat_completeness auto
termination
proof (relation "measure size", goal_cases)
  case 1
  show ?case by simp
next
  case (2 e)
  have lk: "size (lookup k ps) < Suc (size_list (size_prod (\<lambda>x. 0) size) ps)" for k ps
    by (induction ps) auto
  from 2 obtain c ps where e: "e = JObj c ps"
    by (cases e) (auto split: if_splits)
  with 2 have "read_prop e (str ''cause'') = lookup (str ''cause'') ps"
    by (auto simp: getters_def split: if_splits)
  with e lk [of "str ''cause''" ps] show ?case
    by simp
qed

declare rootCause.simps [simp del]

text \<open>
  For the statement about \<open>rootCause\<close>: \<open>b\<close> is the cause of \<open>a\<close>, it exists and it is
  not empty.
\<close>

definition cause_link :: "jsval \<Rightarrow> jsval \<Rightarrow> bool" where
  "cause_link a b = (b = read_prop a (str ''cause'') \<and> truthy b \<and> \<not> isEmpty b)"

subsection \<open>wrap\<close>

text \<open>\<^verbatim>\<open>s.replace(pattern, replacement)\<close> with a string pattern: the first occurrence.\<close>

fun replace_first :: "jsstring \<Rightarrow> jsstring \<Rightarrow> jsstring \<Rightarrow> jsstring" where
  "replace_first pat rep [] = (if pat = [] then rep else [])"
| "replace_first pat rep (c # cs) =
     (if take (length pat) (c # cs) = pat then rep @ drop (length pat) (c # cs)
      else c # replace_first pat rep cs)"

text \<open>
  The part of \<open>wrap\<close> that builds a new \<open>SfdxFalconError\<close>, reached when the argument is
  not one already: around an \<^verbatim>\<open>Error\<close>, with the two stack traces joined, or around
  anything else, kept under \<^verbatim>\<open>data.unknownObj\<close>. Joining the stack traces interpolates
  the name, the message and the stack of the argument, and throws if one of them does
  not convert to a string.
\<close>

definition wrap_new :: "js_env \<Rightarrow> jsstring option \<Rightarrow> jsval \<Rightarrow> jsval \<Rightarrow> jsval option" where
  "wrap_new env stk error source =
     (if instanceof error ErrorC then
        (let sfdxFalconError =
               SfdxFalconError_new SfdxFalconErrorC stk (read_prop error (str ''message''))
                 (read_prop error (str ''name'')) source JUndefined JUndefined JUndefined
         in if truthy (read_prop sfdxFalconError (str ''stack'')) then
              do {
                name \<leftarrow> ToString env (read_prop error (str ''name''));
                message \<leftarrow> ToString env (read_prop error (str ''message''));
                let outer = replace_first (name @ str '': '' @ message) (str ''Outer stack:'')
                              (str_of (read_prop sfdxFalconError (str ''stack'')));
                inner \<leftarrow> ToString env (read_prop error (str ''stack''));
                Some (assign sfdxFalconError (str ''stack'') (JStr (inner @ [nl] @ outer)))
              }
            else Some sfdxFalconError)
      else
        Some (assign
          (SfdxFalconError_new SfdxFalconErrorC stk
             (JStr (str ''Additional error detail saved to the SfdxFalconError.data Object.''))
             (JStr (str ''UnknownError'')) JUndefined JUndefined JUndefined JUndefined)
          (str ''data'') (JObj PlainObject [(str ''unknownObj'', error)])))"

text \<open>
  \<open>wrap\<close> returns an object, and which object it returns matters. A heap lists the
  values allocated so far; the index of a value is its address, and \<^verbatim>\<open>new\<close> appends
  to the list. The argument \<open>error\<close> is an address; \<open>wrap\<close> returns the heap and the
  address of its result. It is \<open>None\<close> when \<open>wrap\<close> throws (and for an address that
  names nothing).
\<close>

type_synonym heap = "jsval list"

definition wrap :: "js_env \<Rightarrow> jsstring option \<Rightarrow> heap \<Rightarrow> nat \<Rightarrow> jsval \<Rightarrow> (heap \<times> nat) option" where
  "wrap env stk h error source =
     (if length h \<le> error then None
      else if instanceof (h ! error) SfdxFalconErrorC then Some (h, error)
      else
        do {
          sfdxFalconError \<leftarrow> wrap_new env stk (h ! error) source;
          Some (h @ [sfdxFalconError], length h)
        })"

subsection \<open>Rendering\<close>

record SfdxFalconErrorRenderOptions =
  headerColor :: jsstring
  labelColor :: jsstring
  errorLabelColor :: jsstring
  valueColor :: jsstring
  childInspectDepth :: int
  detailInspectDepth :: int
  errorInspectDepth :: int

definition label :: "js_env \<Rightarrow> SfdxFalconErrorRenderOptions \<Rightarrow> jsstring \<Rightarrow> jsstring" where
  "label env options txt = [nl] @ style env (errorLabelColor options) txt"

text \<open>
  A \<^verbatim>\<open>chalk\<close> template converts each interpolated value with \<^verbatim>\<open>String\<close>, so a value
  that does not convert makes the rendering throw, as a property read on \<^verbatim>\<open>undefined\<close>
  does: the renderers are \<open>None\<close> then. A line that is shown under a condition converts
  its value only when the condition holds.
\<close>

definition renderBaseDetail ::
  "js_env \<Rightarrow> jsval \<Rightarrow> SfdxFalconErrorRenderOptions \<Rightarrow> jsstring option" where
  "renderBaseDetail env errorToRender options =
     do {
       name \<leftarrow> get_prop errorToRender (str ''name'');
       name \<leftarrow> ToString env name;
       message \<leftarrow> get_prop errorToRender (str ''message'');
       message \<leftarrow> ToString env message;
       let renderOutput =
             label env options (str ''Error Name:'') @ str ''    ''
               @ style env (valueColor options) name
             @ label env options (str ''Error Message:'') @ str '' ''
               @ style env (valueColor options) message;
       actions \<leftarrow> get_prop errorToRender (str ''actions'');
       let renderOutput =
             (if truthy actions \<and> isEmpty actions = False
              then renderOutput
                   @ label env options
                       (str ''SfdxError Actions (Depth ''
                          @ Number_toString env (childInspectDepth options) @ str ''):'')
                   @ [nl] @ style env (str ''reset'') (inspect env actions (childInspectDepth options))
              else renderOutput);
       source \<leftarrow> get_prop errorToRender (str ''source'');
       source \<leftarrow> ToString env source;
       stack \<leftarrow> get_prop errorToRender (str ''stack'');
       stack \<leftarrow> ToString env stack;
       let renderOutput =
             renderOutput
             @ label env options (str ''Error Source:'') @ str ''  ''
               @ style env (valueColor options) source
             @ label env options (str ''Error Stack:'') @ str '' '' @ [nl]
               @ style env (valueColor options) stack;
       resultStack \<leftarrow> get_prop errorToRender (str ''resultStack'');
       renderOutput \<leftarrow>
             (if truthy resultStack \<and> isEmpty resultStack = False
              then do {
                     resultStack \<leftarrow> ToString env resultStack;
                     Some (renderOutput @ label env options (str ''Result Stack:'') @ [nl] @ resultStack)
                   }
              else Some renderOutput);
       detail \<leftarrow> get_prop errorToRender (str ''detail'');
       let renderOutput =
             (if truthy detail \<and> isEmpty detail = False
              then renderOutput @ label env options (str ''Error Detail:'')
                   @ [nl] @ style env (str ''reset'') (inspect env detail 10)
              else renderOutput);
       data \<leftarrow> get_prop errorToRender (str ''data'');
       let renderOutput =
             (if truthy data \<and> isEmpty data = False
              then renderOutput
                   @ label env options
                       (str ''Error Data (Depth ''
                          @ Number_toString env (errorInspectDepth options) @ str ''):'')
                   @ [nl] @ style env (str ''reset'') (inspect env data (errorInspectDepth options))
              else renderOutput);
       Some renderOutput
     }"

text \<open>One line of the two detail renderers: shown when \<open>shown\<close> holds, as the label,
  some padding and the value converted to a string.\<close>

definition detail_line ::
  "js_env \<Rightarrow> SfdxFalconErrorRenderOptions \<Rightarrow> bool \<Rightarrow> jsstring \<Rightarrow> jsstring \<Rightarrow> jsval \<Rightarrow> jsstring
     \<Rightarrow> jsstring option" where
  "detail_line env options shown title padding v renderOutput =
     (if shown
      then do {
             converted \<leftarrow> ToString env v;
             Some (renderOutput @ label env options title @ padding @ converted)
           }
      else Some renderOutput)"

text \<open>The lines for \<^verbatim>\<open>cliError.actions\<close>, shown when that is an array: a title, then
  one line for each element, converted to a string.\<close>

definition action_lines ::
  "js_env \<Rightarrow> SfdxFalconErrorRenderOptions \<Rightarrow> jsval \<Rightarrow> jsstring \<Rightarrow> jsstring option" where
  "action_lines env options actions renderOutput =
     (case actions of
        JArr xs \<Rightarrow>
          for_of (\<lambda>renderOutput action.
                    do {
                      converted \<leftarrow> ToString env action;
                      Some (renderOutput @ [nl] @ style env (str ''green'') converted)
                    })
            (renderOutput @ label env options (str ''CLI Error Actions:'')) xs
      | _ \<Rightarrow> Some renderOutput)"

definition renderSfdxCliErrorDetail ::
  "js_env \<Rightarrow> jsval \<Rightarrow> SfdxFalconErrorRenderOptions \<Rightarrow> jsstring option" where
  "renderSfdxCliErrorDetail env errorToRender options =
     do {
       let renderOutput = [];
       name \<leftarrow> get_path errorToRender [str ''cliError'', str ''name''];
       renderOutput \<leftarrow>
         detail_line env options (isEmpty name = False) (str ''CLI Error Name:'') (str ''    '')
           name renderOutput;
       message \<leftarrow> get_path errorToRender [str ''cliError'', str ''message''];
       renderOutput \<leftarrow>
         detail_line env options (isEmpty message = False) (str ''CLI Error Message:'') (str '' '')
           message renderOutput;
       status \<leftarrow> get_path errorToRender [str ''cliError'', str ''status''];
       renderOutput \<leftarrow>
         detail_line env options (isEmpty status = False) (str ''CLI Error Status:'') (str ''  '')
           status renderOutput;
       actions \<leftarrow> get_path errorToRender [str ''cliError'', str ''actions''];
       renderOutput \<leftarrow> action_lines env options actions renderOutput;
       warnings \<leftarrow> get_path errorToRender [str ''cliError'', str ''warnings''];
       let renderOutput =
             (if isEmpty warnings = False
              then renderOutput @ label env options (str ''CLI Error Warnings:'')
                   @ [nl] @ inspect env warnings (childInspectDepth options)
              else renderOutput);
       stack \<leftarrow> get_path errorToRender [str ''cliError'', str ''stack''];
       renderOutput \<leftarrow>
         detail_line env options (isEmpty stack = False \<and> childInspectDepth options \<ge> 5)
           (str ''CLI Error Stack:'') (str ''   '' @ [nl]) stack renderOutput;
       result \<leftarrow> get_path errorToRender [str ''cliError'', str ''result''];
       let renderOutput =
             (if isEmpty result = False \<and> childInspectDepth options \<ge> 2
              then renderOutput
                   @ label env options
                       (str ''CLI Error Raw Result: (Depth '' @ Number_toString env 5 @ str '')'')
                   @ [nl] @ inspect env result 5
              else renderOutput);
       Some renderOutput
     }"

definition renderShellErrorDetail ::
  "js_env \<Rightarrow> jsval \<Rightarrow> SfdxFalconErrorRenderOptions \<Rightarrow> jsstring option" where
  "renderShellErrorDetail env errorToRender options =
     do {
       let renderOutput = [];
       cmd \<leftarrow> get_path errorToRender [str ''shellError'', str ''command''];
       renderOutput \<leftarrow>
         detail_line env options (isEmpty cmd = False) (str ''ShellError Command:'') (str '' '')
           cmd renderOutput;
       code \<leftarrow> get_path errorToRender [str ''shellError'', str ''code''];
       renderOutput \<leftarrow>
         detail_line env options (truthy code) (str ''ShellError Code:'') (str ''    '')
           code renderOutput;
       signal \<leftarrow> get_path errorToRender [str ''shellError'', str ''signal''];
       renderOutput \<leftarrow>
         detail_line env options (isEmpty signal = False) (str ''ShellError Signal:'') (str ''  '')
           signal renderOutput;
       message \<leftarrow> get_path errorToRender [str ''shellError'', str ''message''];
       renderOutput \<leftarrow>
         detail_line env options (isEmpty message = False) (str ''ShellError Message:'') (str '' '')
           message renderOutput;
       stderr \<leftarrow> get_path errorToRender [str ''shellError'', str ''stderr''];
       renderOutput \<leftarrow>
         detail_line env options (isEmpty stderr = False) (str ''ShellError StdErr:'') [nl]
           stderr renderOutput;
       stdout \<leftarrow> get_path errorToRender [str ''shellError'', str ''stdout''];
       renderOutput \<leftarrow>
         detail_line env options (isEmpty stdout = False) (str ''ShellError StdOut:'') [nl]
           stdout renderOutput;
       Some renderOutput
     }"

definition renderUnknownDetail ::
  "js_env \<Rightarrow> jsval \<Rightarrow> SfdxFalconErrorRenderOptions \<Rightarrow> jsstring" where
  "renderUnknownDetail env unknownObject options =
     label env options (str ''Error Name:'') @ str ''    ''
       @ style env (valueColor options) (str ''UNKNOWN'')
     @ label env options (str ''Error Message:'') @ str '' ''
       @ style env (valueColor options) (str ''The object provided is not of type 'Error'' @ [sq])
     @ label env options (str ''Error Stack:'') @ str ''   ''
       @ style env (valueColor options) (str ''Not Available'')
     @ label env options
         (str ''Raw Object: (Depth '' @ Number_toString env (childInspectDepth options) @ str '')'')
     @ [nl] @ inspect env unknownObject (childInspectDepth options)"

text \<open>A depth argument left out takes its default, and so does a depth of 0
  (\<^verbatim>\<open>childInspectDepth || 2\<close>).\<close>

definition depth_or :: "int option \<Rightarrow> int \<Rightarrow> int" where
  "depth_or d dflt = (case d of None \<Rightarrow> dflt | Some n \<Rightarrow> if n = 0 then dflt else n)"

definition renderError ::
  "js_env \<Rightarrow> jsval \<Rightarrow> int option \<Rightarrow> int option \<Rightarrow> int option \<Rightarrow> jsstring option" where
  "renderError env errorToRender childDepth detailDepth errorDepth =
     (let renderOptions =
            \<lparr>headerColor = str ''yellow'', labelColor = str ''blue'', errorLabelColor = str ''red'',
             valueColor = str ''reset'',
             childInspectDepth = depth_or childDepth 2,
             detailInspectDepth = depth_or detailDepth 4,
             errorInspectDepth = depth_or errorDepth 1\<rparr>
      in if instanceof errorToRender ErrorC \<noteq> True
         then Some (renderUnknownDetail env errorToRender renderOptions)
         else
           do {
             renderOutput \<leftarrow> renderBaseDetail env errorToRender renderOptions;
             renderOutput \<leftarrow>
               (if instanceof errorToRender SfdxCliErrorC
                then map_option (\<lambda>r. renderOutput @ r)
                       (renderSfdxCliErrorDetail env errorToRender renderOptions)
                else Some renderOutput);
             renderOutput \<leftarrow>
               (if instanceof errorToRender ShellErrorC
                then map_option (\<lambda>r. renderOutput @ r)
                       (renderShellErrorDetail env errorToRender renderOptions)
                else Some renderOutput);
             Some renderOutput
           })"

text \<open>
  For the statement about \<open>renderError\<close>: a value is printable when it converts to a
  string, and an error is renderable, at a given depth for its children, when every value
  that the renderers interpolate is printable, an \<open>SfdxCliError\<close> has its \<open>cliError\<close>
  member and a \<open>ShellError\<close> its \<open>shellError\<close> member. The name, the message, the
  source and the stack are always interpolated; the other fields when their line is
  shown, under the condition that the renderer tests. A value that is not an
  \<^verbatim>\<open>Error\<close> is always renderable.
\<close>

definition printable :: "js_env \<Rightarrow> jsval \<Rightarrow> bool" where
  "printable env v = (ToString env v \<noteq> None)"

definition renderable :: "js_env \<Rightarrow> int option \<Rightarrow> jsval \<Rightarrow> bool" where
  "renderable env childDepth v =
     (instanceof v ErrorC \<longrightarrow>
        list_all (\<lambda>k. printable env (read_prop v k))
          [str ''name'', str ''message'', str ''source'', str ''stack'']
        \<and> (truthy (read_prop v (str ''resultStack''))
               \<and> isEmpty (read_prop v (str ''resultStack'')) = False
             \<longrightarrow> printable env (read_prop v (str ''resultStack'')))
        \<and> (instanceof v SfdxCliErrorC \<longrightarrow>
             read_prop v (str ''cliError'') \<noteq> JUndefined \<and> read_prop v (str ''cliError'') \<noteq> JNull
             \<and> list_all (\<lambda>k. isEmpty (read_prop (read_prop v (str ''cliError'')) k) = False
                              \<longrightarrow> printable env (read_prop (read_prop v (str ''cliError'')) k))
                 [str ''name'', str ''message'', str ''status'']
             \<and> (case read_prop (read_prop v (str ''cliError'')) (str ''actions'') of
                   JArr xs \<Rightarrow> list_all (printable env) xs
                 | _ \<Rightarrow> True)
             \<and> (isEmpty (read_prop (read_prop v (str ''cliError'')) (str ''stack'')) = False
                    \<and> 5 \<le> depth_or childDepth 2
                  \<longrightarrow> printable env (read_prop (read_prop v (str ''cliError'')) (str ''stack''))))
        \<and> (instanceof v ShellErrorC \<longrightarrow>
             read_prop v (str ''shellError'') \<noteq> JUndefined \<and> read_prop v (str ''shellError'') \<noteq> JNull
             \<and> list_all (\<lambda>k. isEmpty (read_prop (read_prop v (str ''shellError'')) k) = False
                              \<longrightarrow> printable env (read_prop (read_prop v (str ''shellError'')) k))
                 [str ''command'', str ''signal'', str ''message'', str ''stderr'', str ''stdout'']
             \<and> (truthy (read_prop (read_prop v (str ''shellError'')) (str ''code''))
                  \<longrightarrow> printable env (read_prop (read_prop v (str ''shellError'')) (str ''code'')))))"

subsection \<open>SfdxCliError\<close>

text \<open>
  The body of the \<^verbatim>\<open>try\<close> block in the constructor of \<open>SfdxCliError\<close>: \<open>None\<close> when it
  throws. \<^verbatim>\<open>JSON.parse\<close> throws on text that is not JSON; the first property read throws
  when the text parses to \<^verbatim>\<open>null\<close>; and \<^verbatim>\<open>isNaN\<close> converts its argument to a number,
  which for an object or an array goes through the same \<^verbatim>\<open>toString\<close> as the conversion
  to a string and throws when that does.
\<close>

definition cliError_parsed :: "js_env \<Rightarrow> jsstring \<Rightarrow> jsval option" where
  "cliError_parsed env stdErrBuffer =
     do {
       parsedError \<leftarrow> JSON_parse env stdErrBuffer;
       name \<leftarrow> get_prop parsedError (str ''name'');
       message \<leftarrow> get_prop parsedError (str ''message'');
       status \<leftarrow> get_prop parsedError (str ''status'');
       converted \<leftarrow> ToString env status;
       let status = (if isNaN env status then JNum 1 else status);
       parsedActions \<leftarrow> get_prop parsedError (str ''actions'');
       let actions = (case parsedActions of JArr xs \<Rightarrow> xs | _ \<Rightarrow> []);
       parsedAction \<leftarrow> get_prop parsedError (str ''action'');
       let actions = (if truthy parsedAction then actions @ [parsedAction] else actions);
       warnings \<leftarrow> get_prop parsedError (str ''warnings'');
       stack \<leftarrow> get_prop parsedError (str ''stack'');
       result \<leftarrow> get_prop parsedError (str ''result'');
       Some (JObj PlainObject
         [(str ''name'', js_or name (JStr (str ''UnknownCliError''))),
          (str ''message'', js_or message
             (JStr (str ''Unknown CLI Error (see 'cliError.result.rawResult' for original CLI response)''))),
          (str ''status'', status),
          (str ''actions'', JArr actions),
          (str ''warnings'', js_or warnings (JArr [])),
          (str ''stack'', js_or stack (JStr [])),
          (str ''result'', js_or result (JObj PlainObject [(str ''rawResult'', parsedError)]))])
     }"

text \<open>What the \<^verbatim>\<open>catch\<close> block makes of the raw text.\<close>

definition cliError_unparseable :: "jsstring \<Rightarrow> jsval" where
  "cliError_unparseable stdErrBuffer =
     JObj PlainObject
       [(str ''name'', JStr (str ''UnparseableCliError'')),
        (str ''message'',
           JStr (str ''Unparseable CLI Error (see 'cliError.result.rawResult' for raw error)'')),
        (str ''status'', JNum 999),
        (str ''actions'', JArr []),
        (str ''warnings'', JArr []),
        (str ''stack'',
           JStr (str ''Unparseable CLI Error (see 'cliError.result.rawResult' for raw error)'')),
        (str ''result'', JObj PlainObject [(str ''rawResult'', JStr stdErrBuffer)])]"

text \<open>
  The constructor. After the \<^verbatim>\<open>try\<close> and \<^verbatim>\<open>catch\<close> blocks, outside them, the call of
  \<^verbatim>\<open>super\<close> interpolates the message it was given and \<^verbatim>\<open>cliError.message\<close>; the
  constructor throws (\<open>None\<close>) if one of them does not convert to a string.
\<close>

definition SfdxCliError_new ::
  "js_env \<Rightarrow> jsstring option \<Rightarrow> jsstring \<Rightarrow> jsval \<Rightarrow> jsval \<Rightarrow> jsval option" where
  "SfdxCliError_new env stk stdErrBuffer message source =
     (let message = (if message = JUndefined then JStr (str ''Unknown CLI Error'') else message);
          source = (if source = JUndefined then JStr [] else source);
          cliError = (case cliError_parsed env stdErrBuffer of
                        Some parsed \<Rightarrow> parsed
                      | None \<Rightarrow> cliError_unparseable stdErrBuffer)
      in do {
           message \<leftarrow> ToString env message;
           cliMessage \<leftarrow> ToString env (read_prop cliError (str ''message''));
           let this = SfdxFalconError_new SfdxCliErrorC stk
                        (JStr (message @ str ''. '' @ cliMessage))
                        (JStr (str ''SfdxCliError'')) source JUndefined JUndefined JUndefined;
           let this = assign this (str ''cliError'') cliError;
           Some (if isEmpty (read_prop cliError (str ''actions'')) = False
                 then assign this (str ''actions'') (read_prop cliError (str ''actions''))
                 else this)
         })"

subsection \<open>ShellError\<close>

text \<open>\<^verbatim>\<open>s.indexOf(c)\<close>, which is -1 when \<open>c\<close> does not occur, and
  \<^verbatim>\<open>s.substr(start, length)\<close>, which is empty for a length below 1.\<close>

fun indexOf :: "jsstring \<Rightarrow> code_unit \<Rightarrow> int" where
  "indexOf [] c = - 1"
| "indexOf (x # xs) c = (if x = c then 0 else if indexOf xs c < 0 then - 1 else indexOf xs c + 1)"

definition substr :: "jsstring \<Rightarrow> nat \<Rightarrow> int \<Rightarrow> jsstring" where
  "substr s start len = (if len \<le> 0 then [] else take (nat len) (drop start s))"

text \<open>
  The message that the constructor of \<open>ShellError\<close> settles on when it is given none
  (or an empty one). The third case interpolates the code and the signal, and
  throws if one of them does not convert to a string.
\<close>

definition default_message :: "js_env \<Rightarrow> jsval \<Rightarrow> jsval \<Rightarrow> jsval \<Rightarrow> jsval \<Rightarrow> jsval option" where
  "default_message env code signal stdErrBuffer stdOutBuffer =
     (if typeof_string stdErrBuffer \<and> truthy stdErrBuffer
      then Some (JStr (substr (str_of stdErrBuffer) 0 (indexOf (str_of stdErrBuffer) nl)))
      else if typeof_string stdOutBuffer \<and> truthy stdOutBuffer
      then Some (JStr (substr (str_of stdOutBuffer) 0 (indexOf (str_of stdOutBuffer) nl)))
      else do {
             code \<leftarrow> ToString env code;
             signal \<leftarrow> ToString env signal;
             Some (JStr (str ''Unknown Shell Error (code='' @ code @ str '', signal='' @ signal
                           @ str '')''))
           })"

definition ShellError_new ::
  "js_env \<Rightarrow> jsstring option \<Rightarrow> jsval \<Rightarrow> jsval \<Rightarrow> jsval \<Rightarrow> jsval \<Rightarrow> jsval \<Rightarrow> jsval \<Rightarrow> jsval
     \<Rightarrow> jsval option" where
  "ShellError_new env stk cmd code signal stdErrBuffer stdOutBuffer source message =
     (let stdOutBuffer = (if stdOutBuffer = JUndefined then JNull else stdOutBuffer);
          source = (if source = JUndefined then JStr [] else source);
          message = (if message = JUndefined then JStr [] else message)
      in do {
           message \<leftarrow> (if \<not> truthy message
                       then default_message env code signal stdErrBuffer stdOutBuffer
                       else Some message);
           converted \<leftarrow> ToString env message;
           let this = SfdxFalconError_new ShellErrorC stk (JStr converted) (JStr (str ''ShellError''))
                        source JUndefined JUndefined JUndefined;
           Some (assign this (str ''shellError'')
                   (JObj PlainObject
                      [(str ''command'', cmd),
                       (str ''code'', code),
                       (str ''signal'', signal),
                       (str ''stdout'', stdOutBuffer),
                       (str ''stderr'', stdErrBuffer),
                       (str ''message'', message)]))
         })"

text \<open>For the statement about the default message: the text of \<open>s\<close> before its first
  newline, and nothing when \<open>s\<close> has no newline.\<close>

definition before_newline :: "jsstring \<Rightarrow> jsstring" where
  "before_newline s = (if nl \<in> set s then takeWhile (\<lambda>c. c \<noteq> nl) s else [])"

section \<open>Results (module sfdx-falcon-result)\<close>

text \<open>
  Modelled from the spec: the class \<open>SfdxFalconResult\<close>, whose module is not among the
  sources; the executor uses its constructor, its \<open>detail\<close> member and its methods
  \<open>success\<close>, \<open>failure\<close> and \<open>error\<close>. The specification gives a Result a name, a type
  out of EXECUTOR, ACTION, RECIPE and COMMAND, a status out of INITIALIZED, RUNNING,
  SUCCESS, FAILURE and ERROR, and a detail, which for an Executor Result is the command
  definition with the output of the command.
\<close>

datatype status = INITIALIZED | RUNNING | SUCCESS | FAILURE | ERROR

datatype result_type = EXECUTOR | ACTION | RECIPE | COMMAND

record ExecutorResultDetail =
  sfdxCommandDef :: SfdxCommandDefinition
  sfdxCommandString :: jsval
  stdOutParsed :: jsval
  stdOutBuffer :: jsval
  stdErrBuffer :: jsval

datatype result_detail = NoDetail | ExecutorDetail ExecutorResultDetail | ErrorDetail jsval

record SfdxFalconResult =
  result_name :: jsstring
  rtype :: result_type
  status :: status
  detail :: result_detail

text \<open>Modelled from the spec: the constructor of \<open>SfdxFalconResult\<close>; a Result is
  "created at the start of an operation", with its status INITIALIZED.\<close>

definition SfdxFalconResult_new :: "jsstring \<Rightarrow> result_type \<Rightarrow> SfdxFalconResult" where
  "SfdxFalconResult_new n t = \<lparr>result_name = n, rtype = t, status = INITIALIZED, detail = NoDetail\<rparr>"

text \<open>
  Modelled from the spec: the methods \<open>success\<close>, \<open>failure\<close> and \<open>error\<close> of
  \<open>SfdxFalconResult\<close>. "Once SUCCESS, FAILURE, or ERROR is set it cannot change", and an
  attempt to set a different one "fails loudly" (\<open>None\<close>); "an Error becomes the detail
  of a FAILURE or ERROR Result".
\<close>

definition finished :: "status \<Rightarrow> bool" where
  "finished s = (s = SUCCESS \<or> s = FAILURE \<or> s = ERROR)"

definition set_status :: "status \<Rightarrow> SfdxFalconResult \<Rightarrow> SfdxFalconResult option" where
  "set_status s r = (if finished (status r) \<and> status r \<noteq> s then None else Some (r\<lparr>status := s\<rparr>))"

definition success :: "SfdxFalconResult \<Rightarrow> SfdxFalconResult option" where
  "success r = set_status SUCCESS r"

definition failure :: "jsval \<Rightarrow> SfdxFalconResult \<Rightarrow> SfdxFalconResult option" where
  "failure e r = map_option (\<lambda>r. r\<lparr>detail := ErrorDetail e\<rparr>) (set_status FAILURE r)"

definition error :: "jsval \<Rightarrow> SfdxFalconResult \<Rightarrow> SfdxFalconResult option" where
  "error e r = map_option (\<lambda>r. r\<lparr>detail := ErrorDetail e\<rparr>) (set_status ERROR r)"

section \<open>The executor (executors/sfdx.ts)\<close>

text \<open>
  What the child process does is the input: the chunks it writes to \<^verbatim>\<open>stdout\<close> and to
  \<^verbatim>\<open>stderr\<close>, and the code and signal of its \<^verbatim>\<open>close\<close> event, a number or \<^verbatim>\<open>null\<close>
  and a string or \<^verbatim>\<open>null\<close> (the code is \<^verbatim>\<open>null\<close> when a signal ended the process).

  \<open>executeSfdxCommand\<close> is an \<^verbatim>\<open>async\<close> function. It compiles the command before it
  creates its promise, so an exception of the compile step rejects the promise that the
  function returns, with the TypeError thrown and not with a Result, and no child
  process is started. Otherwise the promise is resolved or rejected in the \<^verbatim>\<open>close\<close>
  handler, and it stays pending if the handler throws.
\<close>

record child_process =
  stdout_data :: "jsstring list"
  stderr_data :: "jsstring list"
  close_code :: "int option"
  close_signal :: "jsstring option"

datatype rejection = WithResult SfdxFalconResult | WithTypeError

datatype promise = Resolved SfdxFalconResult | Rejected rejection | Pending

definition number_or_null :: "int option \<Rightarrow> jsval" where
  "number_or_null n = (case n of None \<Rightarrow> JNull | Some i \<Rightarrow> JNum i)"

definition string_or_null :: "jsstring option \<Rightarrow> jsval" where
  "string_or_null s = (case s of None \<Rightarrow> JNull | Some t \<Rightarrow> JStr t)"

text \<open>
  The notifications to the observer, the progress timer and the debug output go to
  modules that are not among the sources, and the two environment variables are set for
  the child process; none of them takes part in the Result, and they are left out. The
  detail object is shared between \<open>executorResult.detail\<close> and \<open>executorResultDetail\<close>:
  the writes to the second are writes to the first. \<open>on_close\<close> is the handler of the
  \<^verbatim>\<open>close\<close> event, with the two buffers as the \<^verbatim>\<open>data\<close> handlers have filled them.
\<close>

definition on_close ::
  "js_env \<Rightarrow> jsstring option \<Rightarrow> SfdxCommandDefinition \<Rightarrow> jsstring \<Rightarrow> ExecutorResultDetail
     \<Rightarrow> SfdxFalconResult \<Rightarrow> child_process \<Rightarrow> promise" where
  "on_close env stk commandDef commandString executorResultDetail executorResult child =
     (let stdOut = foldl (@) [] (stdout_data child);
          stdErr = foldl (@) [] (stderr_data child);
          code = number_or_null (close_code child);
          signal = string_or_null (close_signal child);
          executorResultDetail =
            executorResultDetail\<lparr>stdOutBuffer := JStr stdOut, stdErrBuffer := JStr stdErr\<rparr>;
          executorResult = executorResult\<lparr>detail := ExecutorDetail executorResultDetail\<rparr>
      in if code \<noteq> JNum 0 then
           (if detectSalesforceCliError env stdOut then
              (case SfdxCliError_new env stk stdOut (JStr (errorMsg commandDef))
                      (JStr (str ''EXECUTOR:sfdx:executeSfdxCommand'')) of
                 None \<Rightarrow> Pending
               | Some cliError \<Rightarrow>
                   (case failure cliError executorResult of
                      None \<Rightarrow> Pending
                    | Some r \<Rightarrow> Resolved r))
            else
              (case ShellError_new env stk (JStr commandString) code signal (JStr stdErr)
                      (JStr stdOut) (JStr (str ''EXECUTOR:sfdx:executeSfdxCommand'')) JUndefined of
                 None \<Rightarrow> Pending
               | Some shellError \<Rightarrow>
                   (case error shellError executorResult of
                      None \<Rightarrow> Pending
                    | Some r \<Rightarrow> Rejected (WithResult r))))
         else
           (let executorResultDetail =
                  executorResultDetail\<lparr>stdOutParsed := safeParse env stdOut\<rparr>;
                executorResult = executorResult\<lparr>detail := ExecutorDetail executorResultDetail\<rparr>
            in case success executorResult of
                 None \<Rightarrow> Pending
               | Some r \<Rightarrow> Resolved r))"

definition executeSfdxCommand ::
  "js_env \<Rightarrow> jsstring option \<Rightarrow> SfdxCommandDefinition \<Rightarrow> child_process \<Rightarrow> promise" where
  "executeSfdxCommand env stk commandDef child =
     (let executorResult = SfdxFalconResult_new (str ''sfdx:executeSfdxCommand'') EXECUTOR;
          executorResultDetail =
            \<lparr>sfdxCommandDef = commandDef, sfdxCommandString = JNull, stdOutParsed = JNull,
             stdOutBuffer = JNull, stdErrBuffer = JNull\<rparr>;
          executorResult = executorResult\<lparr>detail := ExecutorDetail executorResultDetail\<rparr>
      in case parseSfdxCommand env commandDef of
           None \<Rightarrow> Rejected WithTypeError
         | Some commandString \<Rightarrow>
             on_close env stk commandDef commandString
               (executorResultDetail\<lparr>sfdxCommandString := JStr commandString\<rparr>)
               executorResult child)"

section \<open>The action delete-scratch-org (engines/appx/actions/delete-scratch-org.ts)\<close>

text \<open>Of the action context, the members that \<open>executeAction\<close> reads:
  \<^verbatim>\<open>targetOrg.alias\<close>, \<^verbatim>\<open>devHubAlias\<close>, \<^verbatim>\<open>logLevel\<close> and \<^verbatim>\<open>listrExecOptions.observer\<close>.\<close>

record AppxEngineActionContext =
  targetOrg_alias :: jsval
  devHubAlias :: jsval
  logLevel :: jsval
  listrExecOptions_observer :: jsval

text \<open>
  Modelled from the spec: the classes \<open>SfdxFalconActionResponse\<close> and
  \<open>SfdxFalconExecutorResponse\<close>, whose modules are not among the sources; the action
  uses \<open>actionResponse.execSuccess\<close>, the constructor of an executor response and its
  \<open>parse\<close>. The specification has an Action fold the outcome of its Executor call into
  its own Result, where "a child's FAILURE does not automatically become the parent's
  FAILURE", and lets an Action "suppress a child FAILURE and convert it to an
  Action-level SUCCESS": \<open>execSuccess\<close> records the executor's response, as it is, and
  marks the Action a SUCCESS. A response is an executor's Result as it came, or a named
  response that \<open>parse\<close> filled from what the executor's promise was rejected with.
\<close>

datatype exec_response = FromExecutor SfdxFalconResult | Parsed jsstring rejection

record SfdxFalconActionResponse =
  action_status :: status
  execResponses :: "exec_response list"

definition execSuccess :: "exec_response \<Rightarrow> SfdxFalconActionResponse \<Rightarrow> SfdxFalconActionResponse" where
  "execSuccess resp a = a\<lparr>action_status := SUCCESS, execResponses := execResponses a @ [resp]\<rparr>"

text \<open>The command definition that \<open>executeAction\<close> of \<open>DeleteScratchOrgAction\<close> builds;
  the command is the \<^verbatim>\<open>force:org:delete\<close> that \<open>initializeAction\<close> sets. The three
  messages interpolate the alias of the scratch org, which throws if the alias does not
  convert to a string.\<close>

definition delete_commandDef ::
  "js_env \<Rightarrow> AppxEngineActionContext \<Rightarrow> jsval \<Rightarrow> SfdxCommandDefinition option" where
  "delete_commandDef env actionContext scratchOrgAlias =
     do {
       alias \<leftarrow> ToString env scratchOrgAlias;
       let progressMessage =
             str ''Marking scratch org '' @ [sq] @ alias @ [sq] @ str '' for deletion'';
       let errorMessage =
             str ''Request to mark scratch org '' @ [sq] @ alias @ [sq]
               @ str '' for deletion failed'';
       let successMessage =
             str ''Scratch org '' @ [sq] @ alias @ [sq]
               @ str '' successfully marked for deletion'';
       Some \<lparr>command = str ''force:org:delete'',
             progressMsg = progressMessage,
             errorMsg = errorMessage,
             successMsg = successMessage,
             commandArgs = [],
             commandFlags =
               JObj PlainObject
                 [(str ''FLAG_TARGETUSERNAME'', targetOrg_alias actionContext),
                  (str ''FLAG_TARGETDEVHUBUSERNAME'', devHubAlias actionContext),
                  (str ''FLAG_NOPROMPT'', JBool True),
                  (str ''FLAG_JSON'', JBool True),
                  (str ''FLAG_LOGLEVEL'', logLevel actionContext)],
             observer = listrExecOptions_observer actionContext\<rparr>
     }"

text \<open>
  \<open>executeAction\<close>, as a function of what the child process does and of the response
  object of the action. It is an \<^verbatim>\<open>async\<close> function: it returns with the response
  object updated, or it throws (the interpolation of the alias), or the promise it
  awaits never settles. Its \<^verbatim>\<open>catch\<close> handler takes whatever the promise of the
  executor was rejected with.
\<close>

datatype action_outcome = Returned SfdxFalconActionResponse | Threw | Unsettled

definition executeAction ::
  "js_env \<Rightarrow> jsstring option \<Rightarrow> AppxEngineActionContext \<Rightarrow> jsval \<Rightarrow> child_process
     \<Rightarrow> SfdxFalconActionResponse \<Rightarrow> action_outcome" where
  "executeAction env stk actionContext scratchOrgAlias child actionResponse =
     (case delete_commandDef env actionContext scratchOrgAlias of
        None \<Rightarrow> Threw
      | Some commandDef \<Rightarrow>
          (case executeSfdxCommand env stk commandDef child of
             Resolved execSuccessResponse \<Rightarrow>
               Returned (execSuccess (FromExecutor execSuccessResponse) actionResponse)
           | Rejected execErrorResponse \<Rightarrow>
               (let newExecResult =
                      Parsed (str ''Suppressed Scratch Org Deletion Error'') execErrorResponse
                in Returned (execSuccess newExecResult actionResponse))
           | Pending \<Rightarrow> Unsettled))"

section \<open>An environment for the examples\<close>

text \<open>
  A concrete choice of the outside functions, for evaluating the model on examples:
  \<^verbatim>\<open>JSON.parse\<close> restricted to the texts the examples use; \<^verbatim>\<open>isNaN\<close> as it answers for
  \<^verbatim>\<open>undefined\<close>, \<^verbatim>\<open>null\<close>, numbers and booleans, which is all the examples ask it;
  numbers printed by their decimal digits, as the runtime prints an integer below
  \<open>2^53\<close>; the case mappings of the ASCII letters, and of U+0130, the capital I with a dot
  above, which lower-cases to two code units; colours switched off; \<^verbatim>\<open>util.inspect\<close>
  as a fixed text; and a standard output recognized as an error of the Salesforce CLI
  when it starts with a brace. No theorem other than an example or a witness depends on
  this choice.
\<close>

definition example_lower :: "code_unit \<Rightarrow> jsstring" where
  "example_lower c = (if is_upper c then [c + 32] else if c = 0x130 then [0x69, 0x307] else [c])"

definition example_upper :: "code_unit \<Rightarrow> jsstring" where
  "example_upper c = (if is_lower c then [c - 32] else [c])"

definition example_env :: js_env where
  "example_env =
     \<lparr>JSON_parse =
        (\<lambda>s. if s = str ''null'' then Some JNull
             else if s = str ''{}'' then Some (JObj PlainObject [])
             else if s = str ''{\"status\":1,\"name\":\"ScratchOrgNotFound\",\"message\":\"no such org\"}''
             then Some (JObj PlainObject
                          [(str ''status'', JNum 1), (str ''name'', JStr (str ''ScratchOrgNotFound'')),
                           (str ''message'', JStr (str ''no such org''))])
             else if s = str ''{\"message\":{\"toString\":1}}''
             then Some (JObj PlainObject
                          [(str ''message'', JObj PlainObject [(str ''toString'', JNum 1)])])
             else if s = str ''{\"status\":1,\"message\":\"m\",\"actions\":[{\"toString\":1}]}''
             then Some (JObj PlainObject
                          [(str ''status'', JNum 1), (str ''message'', JStr (str ''m'')),
                           (str ''actions'', JArr [JObj PlainObject [(str ''toString'', JNum 1)]])])
             else None),
      isNaN = (\<lambda>v. case v of JNum n \<Rightarrow> False | JNull \<Rightarrow> False | JBool b \<Rightarrow> False | _ \<Rightarrow> True),
      Number_toString = (\<lambda>n. if n < 0 then 45 # index_key (nat (- n)) else index_key (nat n)),
      toLowerCase = (\<lambda>s. concat (map example_lower s)),
      toUpperCase = (\<lambda>s. concat (map example_upper s)),
      inspect = (\<lambda>v depth. str ''[inspect]''),
      style = (\<lambda>colour txt. txt),
      detectSalesforceCliError = (\<lambda>s. take 1 s = str ''{''),
      safeParse = JStr\<rparr>"

section \<open>Properties of the command sanitizer\<close>

lemma safe_not_ws: "safe_char c \<Longrightarrow> \<not> is_ws c"
  by (auto simp: safe_char_def is_ws_def white_space_def is_upper_def is_lower_def is_digit_def)

lemma dropWhile_none: "\<forall>c \<in> set s. \<not> P c \<Longrightarrow> dropWhile P s = s"
  by (cases s) auto

lemma trim_id: "\<forall>c \<in> set s. \<not> is_ws c \<Longrightarrow> trim s = s"
  by (simp add: trim_def dropWhile_none)

text \<open>
  C4. For every string \<open>x\<close> whose characters all lie in \<^verbatim>\<open>[A-Za-z0-9_/:=-]\<close>,
  \<open>sanitizeArgument(x)\<close> returns \<open>x\<close>: the conversion of a string is the string, trimming
  finds no white space and the test for an unsafe character fails, so nothing is quoted.
\<close>

theorem sanitizeArgument_safe_identity:
  "list_all safe_char x \<Longrightarrow> sanitizeArgument env (JStr x) = Some x"
  by (simp add: sanitizeArgument_def trim_id safe_not_ws list_all_iff)

theorem sanitizeArgument_safe_identity_witness:
  "list_all safe_char (str ''force:org:delete'')
   \<and> sanitizeArgument example_env (JStr (str ''force:org:delete'')) = Some (str ''force:org:delete'')"
proof -
  have h: "list_all safe_char (str ''force:org:delete'')" by code_simp
  show ?thesis using h sanitizeArgument_safe_identity [OF h, of example_env] by simp
qed

text \<open>
  C3. \<open>sanitizeArgument("a b")\<close> is the single-quoted \<^verbatim>\<open>'a b'\<close>; \<open>sanitizeArgument("it's")\<close>
  is \<^verbatim>\<open>'it'\''s'\<close>, a single-quoted string with the inner quote escaped, and a POSIX
  shell reads it back as \<^verbatim>\<open>it's\<close>.
\<close>

theorem sanitizeArgument_quoting:
  "sanitizeArgument env (JStr (str ''a b'')) = Some ([sq] @ str ''a b'' @ [sq])
   \<and> sanitizeArgument env (JStr (str ''it's''))
       = Some ([sq] @ str ''it'' @ [sq, bs, sq, sq] @ str ''s'' @ [sq])
   \<and> Option.bind (sanitizeArgument env (JStr (str ''it's''))) (shell_word False)
       = Some (str ''it's'')"
  by (simp add: sanitizeArgument_def trim_def is_ws_def white_space_def safe_char_def
        is_upper_def is_lower_def is_digit_def special_def)

lemma flag_not_ws: "flag_char c \<Longrightarrow> \<not> is_ws c"
  by (auto simp: flag_char_def is_ws_def white_space_def is_upper_def is_lower_def is_digit_def)

lemma filter_dropWhile_ws: "filter flag_char (dropWhile is_ws s) = filter flag_char s"
  by (induction s) (auto dest: flag_not_ws)

lemma filter_trim: "filter flag_char (trim s) = filter flag_char s"
proof -
  have "filter flag_char (trim s) =
          rev (filter flag_char (dropWhile is_ws (rev (dropWhile is_ws s))))"
    by (simp add: trim_def rev_filter)
  also have "\<dots> = rev (filter flag_char (rev (dropWhile is_ws s)))"
    by (simp add: filter_dropWhile_ws)
  also have "\<dots> = filter flag_char s"
    by (simp add: rev_filter filter_dropWhile_ws)
  finally show ?thesis .
qed

lemma resolvedFlag:
  "sanitizeFlag env (JStr ((if b then str ''-'' else str ''--'') @ name)) =
     Some ((if b then str ''-'' else str ''--'') @ filter flag_char name)"
  by (simp add: sanitizeFlag_def filter_trim flag_char_def)

lemma add_flag_rendering: "add_flag env p e = map_option ((@) p) (flag_rendering env e)"
proof (cases e)
  case (Pair k v)
  show ?thesis
  proof (cases "toUpperCase env (take 5 k) = str ''FLAG_''")
    case False
    with Pair show ?thesis
      by (simp add: add_flag_def flag_rendering_def)
  next
    case True
    show ?thesis
      unfolding Pair add_flag_def flag_rendering_def Let_def fst_conv snd_conv prod.case
        resolvedFlag
      using True
      by (cases "sanitizeArgument env v"; cases v) (simp_all add: is_boolean_def)
  qed
qed

lemma add_argument_rendering:
  "add_argument env p a = map_option ((@) p) (map_option ((@) (str '' '')) (sanitizeArgument env a))"
  by (cases "sanitizeArgument env a") (simp_all add: add_argument_def)

text \<open>A loop that appends to what it has built, each round a piece that depends on the
  element only, builds the concatenation of the pieces, and throws if a piece does.\<close>

lemma for_of_append:
  assumes "\<And>acc x. body acc x = map_option ((@) acc) (piece x)"
  shows "for_of body acc xs = map_option (\<lambda>ts. acc @ concat ts) (those (map piece xs))"
proof (induction xs arbitrary: acc)
  case Nil
  show ?case by simp
next
  case (Cons x xs)
  show ?case
  proof (cases "piece x")
    case None
    with assms [of acc x] show ?thesis by simp
  next
    case (Some t)
    with assms [of acc x] have "for_of body acc (x # xs) = for_of body (acc @ t) xs"
      by simp
    also have "\<dots> = map_option (\<lambda>ts. (acc @ t) @ concat ts) (those (map piece xs))"
      by (rule Cons.IH)
    also have "\<dots> = map_option (\<lambda>ts. acc @ concat ts) (those (map piece (x # xs)))"
      using Some by (cases "those (map piece xs)") simp_all
    finally show ?thesis .
  qed
qed

lemma those_map_map_option:
  "those (map (\<lambda>x. map_option f (g x)) xs) = map_option (map f) (those (map g xs))"
  by (induction xs) (auto split: option.splits simp: option.map_comp comp_def)

text \<open>The compile step returns when every argument and every flag value converts to a
  string and \<open>commandFlags\<close> has keys to list.\<close>

lemma sanitizeArgument_returns: "printable env v \<Longrightarrow> \<exists>s. sanitizeArgument env v = Some s"
  by (auto simp: sanitizeArgument_def printable_def Let_def)

lemma for_of_returns:
  "(\<And>acc x. x \<in> set xs \<Longrightarrow> \<exists>r. body acc x = Some r) \<Longrightarrow> \<exists>r. for_of body acc xs = Some r"
proof (induction xs arbitrary: acc)
  case Nil
  show ?case by simp
next
  case (Cons x xs)
  from Cons.prems [of x acc] obtain r where r: "body acc x = Some r" by auto
  from Cons.IH [of r] Cons.prems obtain r' where "for_of body r xs = Some r'" by auto
  with r show ?case by simp
qed

lemma add_flag_returns:
  assumes "printable env (snd e)"
  shows "\<exists>r. add_flag env p e = Some r"
proof -
  from sanitizeArgument_returns [OF assms]
  obtain s where "sanitizeArgument env (snd e) = Some s" ..
  then have "\<exists>t. flag_rendering env e = Some t"
    by (cases e; cases "snd e") (auto simp: flag_rendering_def Let_def)
  then show ?thesis by (auto simp: add_flag_rendering)
qed

lemma parseSfdxCommand_returns:
  assumes "list_all (printable env) (commandArgs d)"
    and "object_entries (commandFlags d) = Some es"
    and "list_all (\<lambda>e. printable env (snd e)) es"
  shows "\<exists>cmd. parseSfdxCommand env d = Some cmd"
proof -
  have "\<exists>r. for_of (add_argument env) p (commandArgs d) = Some r" for p
    using assms(1)
    by (intro for_of_returns)
       (auto simp: add_argument_rendering list_all_iff dest!: sanitizeArgument_returns)
  moreover have "\<exists>r. for_of (add_flag env) p es = Some r" for p
    using assms(3) by (intro for_of_returns add_flag_returns) (simp add: list_all_iff)
  ultimately show ?thesis
    unfolding parseSfdxCommand_def Let_def assms(2)
    by (metis bind.bind_lunit)
qed

text \<open>
  C2, as amended. The compile step throws exactly when an argument or the value of a
  flag that is not a boolean does not convert to a string, or \<open>commandFlags\<close> is
  \<^verbatim>\<open>undefined\<close> or \<^verbatim>\<open>null\<close>. Otherwise the compiled command is \<^verbatim>\<open>sfdx\<close>, the command
  name, each argument sanitized, then each entry of \<open>commandFlags\<close> rendered by
  \<open>flag_rendering\<close>: nothing for a key whose first five characters do not upper-case to
  \<^verbatim>\<open>FLAG_\<close>; else the rest of the key lower-cased, reduced to letters, digits and dashes,
  after one dash when the lower-cased rest has exactly one character and after two
  otherwise, bare for a boolean value (\<open>true\<close> or \<open>false\<close>) and followed by the sanitized
  value for any other value.
\<close>

theorem parseSfdxCommand_rendering:
  "parseSfdxCommand env d =
     do {
       arguments \<leftarrow> those (map (sanitizeArgument env) (commandArgs d));
       entries \<leftarrow> object_entries (commandFlags d);
       flags \<leftarrow> those (map (flag_rendering env) entries);
       Some (str ''sfdx '' @ command d @ concat (map ((@) (str '' '')) arguments) @ concat flags)
     }"
proof -
  have args: "for_of (add_argument env) p xs =
                map_option (\<lambda>ts. p @ concat (map ((@) (str '' '')) ts))
                  (those (map (sanitizeArgument env) xs))" for p xs
    by (simp add: for_of_append [where piece = "\<lambda>a. map_option ((@) (str '' '')) (sanitizeArgument env a)"]
          add_argument_rendering those_map_map_option option.map_comp comp_def)
  have flags: "for_of (add_flag env) p es =
                 map_option (\<lambda>ts. p @ concat ts) (those (map (flag_rendering env) es))" for p es
    by (rule for_of_append) (rule add_flag_rendering)
  show ?thesis
    unfolding parseSfdxCommand_def Let_def args flags
    by (cases "those (map (sanitizeArgument env) (commandArgs d))";
        cases "object_entries (commandFlags d)";
        cases "those (map (flag_rendering env) (the (object_entries (commandFlags d))))";
        simp)
qed

text \<open>
  The claim as first worded gives every value other than \<open>true\<close> the form "flag, then
  value". For the flag \<^verbatim>\<open>FLAG_JSON: false\<close> that is \<^verbatim>\<open>--json false\<close>; the compiler
  renders the bare \<^verbatim>\<open>--json\<close>.
\<close>

theorem parseSfdxCommand_false_flag:
  "parseSfdxCommand example_env
     \<lparr>command = str ''force:org:delete'', progressMsg = [], errorMsg = [], successMsg = [],
      commandArgs = [], commandFlags = JObj PlainObject [(str ''FLAG_JSON'', JBool False)],
      observer = JNull\<rparr>
     = Some (str ''sfdx force:org:delete --json'')
   \<and> flag_rendering_true_only example_env (str ''FLAG_JSON'', JBool False)
       = Some (str '' --json false'')"
  by (simp add: parseSfdxCommand_def add_flag_def sanitizeFlag_def sanitizeArgument_def
        flag_rendering_true_only_def enumerable_def example_env_def example_lower_def
        example_upper_def trim_def is_ws_def white_space_def safe_char_def flag_char_def
        is_upper_def is_lower_def is_digit_def is_boolean_def)

text \<open>
  Two more examples. The dash goes by the lower-cased name: the key \<^verbatim>\<open>FLAG_\<close> followed
  by U+0130 has a name of one character, which lower-cases to two, of which the filter
  keeps the \<^verbatim>\<open>i\<close>; the flag is \<^verbatim>\<open>--i\<close>. And a flag whose value has an own property
  \<^verbatim>\<open>toString\<close> makes the compile step throw, as does a \<open>commandFlags\<close> that is
  \<^verbatim>\<open>undefined\<close>.
\<close>

lemma parseSfdxCommand_examples:
  "parseSfdxCommand example_env
     \<lparr>command = str ''x'', progressMsg = [], errorMsg = [], successMsg = [],
      commandArgs = [], commandFlags = JObj PlainObject [(str ''FLAG_'' @ [0x130], JBool True)],
      observer = JNull\<rparr>
     = Some (str ''sfdx x --i'')
   \<and> parseSfdxCommand example_env
       \<lparr>command = str ''x'', progressMsg = [], errorMsg = [], successMsg = [],
        commandArgs = [],
        commandFlags = JObj PlainObject
                         [(str ''FLAG_A'', JObj PlainObject [(str ''toString'', JNum 1)])],
        observer = JNull\<rparr>
     = None
   \<and> parseSfdxCommand example_env
       \<lparr>command = str ''x'', progressMsg = [], errorMsg = [], successMsg = [],
        commandArgs = [], commandFlags = JUndefined, observer = JNull\<rparr>
     = None"
  by (simp add: parseSfdxCommand_def add_flag_def sanitizeFlag_def sanitizeArgument_def
        enumerable_def example_env_def example_lower_def
        example_upper_def trim_def is_ws_def white_space_def safe_char_def flag_char_def
        is_upper_def is_lower_def is_digit_def is_boolean_def)

section \<open>Properties of the error classes\<close>

lemma instanceof_assign: "instanceof (assign v k x) c = instanceof v c"
  by (cases v) simp_all

lemma instanceof_new: "instanceof (SfdxFalconError_new c stk m n s ca a x) d = inherits c d"
  by (simp add: SfdxFalconError_new_def Let_def)

lemma new_is_obj: "\<exists>ps. SfdxFalconError_new c stk m n s ca a x = JObj c ps"
  by (simp add: SfdxFalconError_new_def Let_def)

lemma lookup_set_prop: "lookup k (set_prop k' v ps) = (if k = k' then v else lookup k ps)"
  by (induction ps) auto

lemma keys_set_prop: "(k \<in> fst ` set (set_prop k' v ps)) = (k = k' \<or> k \<in> fst ` set ps)"
  by (induction ps) force+

lemma stack_of_new:
  "k = str ''stack'' \<Longrightarrow>
   read_prop (SfdxFalconError_new SfdxFalconErrorC stk m n s ca a x) k =
     (case stk of None \<Rightarrow> JUndefined | Some trace \<Rightarrow> JStr trace)"
  by (cases stk) (simp_all add: SfdxFalconError_new_def Let_def getters_def)

lemma wrap_new_falcon: "wrap_new env stk v src = Some w \<Longrightarrow> instanceof w SfdxFalconErrorC"
  by (auto simp: wrap_new_def Let_def instanceof_assign instanceof_new
        split: if_splits Option.bind_splits)

lemma wrap_new_throws:
  "(wrap_new env stk v src = None) =
     (instanceof v ErrorC \<and> stk \<noteq> None \<and> stk \<noteq> Some []
      \<and> \<not> (printable env (read_prop v (str ''name''))
           \<and> printable env (read_prop v (str ''message''))
           \<and> printable env (read_prop v (str ''stack''))))"
  by (cases stk)
     (auto simp: wrap_new_def Let_def stack_of_new printable_def split: Option.bind_splits)

lemma falcon_is_error: "instanceof v SfdxFalconErrorC \<Longrightarrow> instanceof v ErrorC"
  by (cases v) auto

text \<open>
  C6. \<open>wrap\<close> is idempotent: whatever \<open>wrap\<close> returns is an \<open>SfdxFalconError\<close>, and
  wrapping that result again returns the same object (the same address) and allocates
  nothing; in particular an argument that is already an \<open>SfdxFalconError\<close> comes back
  itself, on an unchanged heap. Here \<open>wrap(wrap(e))\<close> and \<open>wrap(e)\<close> share one evaluation
  of the inner \<open>wrap(e)\<close>. There is a result to wrap again unless \<open>wrap(e)\<close> throws, which
  it does in one case only: \<open>e\<close> is an \<^verbatim>\<open>Error\<close> and not an \<open>SfdxFalconError\<close>, the new
  object has a stack trace, and the name, the message or the stack of \<open>e\<close> does not
  convert to a string.
\<close>

theorem wrap_idempotent:
  "a < length h \<Longrightarrow>
     ((wrap env stk h a source = None) =
        (instanceof (h ! a) ErrorC \<and> \<not> instanceof (h ! a) SfdxFalconErrorC
         \<and> stk \<noteq> None \<and> stk \<noteq> Some []
         \<and> \<not> (printable env (read_prop (h ! a) (str ''name''))
              \<and> printable env (read_prop (h ! a) (str ''message''))
              \<and> printable env (read_prop (h ! a) (str ''stack'')))))
     \<and> (wrap env stk h a source \<noteq> None \<longrightarrow>
          (\<exists>h' w. wrap env stk h a source = Some (h', w)
             \<and> w < length h'
             \<and> instanceof (h' ! w) SfdxFalconErrorC
             \<and> wrap env stk' h' w source' = Some (h', w)
             \<and> (instanceof (h ! a) SfdxFalconErrorC \<longrightarrow> h' = h \<and> w = a)))"
proof (cases "instanceof (h ! a) SfdxFalconErrorC")
  case True
  assume "a < length h"
  with True show ?thesis by (simp add: wrap_def)
next
  case False
  assume a: "a < length h"
  show ?thesis
  proof (cases "wrap_new env stk (h ! a) source")
    case None
    with a False have "wrap env stk h a source = None" by (simp add: wrap_def)
    with None False show ?thesis by (simp add: wrap_new_throws)
  next
    case (Some w)
    with a False have w: "wrap env stk h a source = Some (h @ [w], length h)"
      by (simp add: wrap_def)
    from Some have "instanceof w SfdxFalconErrorC" by (rule wrap_new_falcon)
    then have "wrap env stk' (h @ [w]) (length h) source' = Some (h @ [w], length h)"
      by (simp add: wrap_def)
    moreover from Some have "\<not> (instanceof (h ! a) ErrorC \<and> stk \<noteq> None \<and> stk \<noteq> Some []
         \<and> \<not> (printable env (read_prop (h ! a) (str ''name''))
              \<and> printable env (read_prop (h ! a) (str ''message''))
              \<and> printable env (read_prop (h ! a) (str ''stack''))))"
      using wrap_new_throws [of env stk "h ! a" source] by simp
    ultimately show ?thesis
      using w False \<open>instanceof w SfdxFalconErrorC\<close> by auto
  qed
qed

text \<open>The theorem at a plain \<^verbatim>\<open>Error\<close> with a stack trace: the wrapper is allocated at
  the next address, and wrapping it again returns it.\<close>

theorem wrap_idempotent_witness:
  "(0::nat) < length [JObj ErrorC [(str ''stack'', JStr (str ''Error: boom at f'')),
                                   (str ''message'', JStr (str ''boom''))]]
   \<and> wrap example_env (Some (str ''Error: boom at g''))
       [JObj ErrorC [(str ''stack'', JStr (str ''Error: boom at f'')),
                     (str ''message'', JStr (str ''boom''))]] 0 JUndefined \<noteq> None
   \<and> (\<exists>h' w. wrap example_env (Some (str ''Error: boom at g''))
                [JObj ErrorC [(str ''stack'', JStr (str ''Error: boom at f'')),
                              (str ''message'', JStr (str ''boom''))]] 0 JUndefined = Some (h', w)
         \<and> w = 1 \<and> length h' = 2
         \<and> read_prop (h' ! w) (str ''stack'')
             = JStr (str ''Error: boom at f'' @ [nl] @ str ''Outer stack: at g'')
         \<and> wrap example_env None h' w JUndefined = Some (h', w))"
proof -
  let ?e = "JObj ErrorC [(str ''stack'', JStr (str ''Error: boom at f'')),
                         (str ''message'', JStr (str ''boom''))]"
  have n: "wrap_new example_env (Some (str ''Error: boom at g'')) ?e JUndefined
           = Some (assign
                (SfdxFalconError_new SfdxFalconErrorC (Some (str ''Error: boom at g''))
                   (JStr (str ''boom'')) (JStr (str ''Error'')) JUndefined JUndefined JUndefined JUndefined)
                (str ''stack'')
                (JStr (str ''Error: boom at f'' @ [nl] @ str ''Outer stack: at g'')))"
    by (simp add: wrap_new_def Let_def stack_of_new str_of_def)
  have s: "read_prop (assign
                (SfdxFalconError_new SfdxFalconErrorC (Some (str ''Error: boom at g''))
                   (JStr (str ''boom'')) (JStr (str ''Error'')) JUndefined JUndefined JUndefined JUndefined)
                (str ''stack'')
                (JStr (str ''Error: boom at f'' @ [nl] @ str ''Outer stack: at g'')))
             (str ''stack'')
           = JStr (str ''Error: boom at f'' @ [nl] @ str ''Outer stack: at g'')"
    by (simp add: SfdxFalconError_new_def Let_def getters_def typeof_string_def)
  have w: "wrap example_env (Some (str ''Error: boom at g'')) [?e] 0 JUndefined \<noteq> None"
    using n by (simp add: wrap_def)
  from wrap_idempotent [of 0 "[?e]" example_env "Some (str ''Error: boom at g'')" JUndefined
                           None JUndefined] w
  show ?thesis
    using s n by (auto simp: wrap_def)
qed

text \<open>
  The equation is about the result of one call. A second, separate call of \<open>wrap\<close> on
  the same plain \<^verbatim>\<open>Error\<close> builds another wrapper, at another address. And an
  \<^verbatim>\<open>Error\<close> whose name has an own property \<^verbatim>\<open>toString\<close> makes \<open>wrap\<close> throw.
\<close>

lemma wrap_separate_calls:
  "wrap env None [JObj ErrorC [(str ''message'', JStr (str ''boom''))]] 0 JUndefined = Some (h1, w1) \<Longrightarrow>
   wrap env None h1 0 JUndefined = Some (h2, w2) \<Longrightarrow> w1 = 1 \<and> w2 = 2"
  by (auto simp: wrap_def split: if_splits Option.bind_splits)

lemma wrap_throws_example:
  "wrap example_env (Some (str ''trace''))
     [JObj ErrorC [(str ''name'', JObj PlainObject [(str ''toString'', JNum 1)])]] 0 JUndefined
   = None"
  by (simp add: wrap_def wrap_new_def Let_def stack_of_new)

text \<open>
  C7. \<open>rootCause\<close> returns the innermost non-empty error of the cause chain: the result
  is reached from the error by following cause links, each to a cause that exists and is
  not empty, and the result itself has no such cause (its cause is missing or empty).
  Causes are set by the constructor only, so a chain is finite and the walk ends.
\<close>

theorem rootCause_innermost:
  "rtranclp cause_link e (rootCause e)
   \<and> \<not> (truthy (read_prop (rootCause e) (str ''cause''))
        \<and> \<not> isEmpty (read_prop (rootCause e) (str ''cause'')))"
proof (induction e rule: rootCause.induct)
  case (1 e)
  show ?case
  proof (cases "truthy (read_prop e (str ''cause'')) \<and> isEmpty (read_prop e (str ''cause'')) = False")
    case True
    then have link: "cause_link e (read_prop e (str ''cause''))"
      by (simp add: cause_link_def)
    have eq: "rootCause e = rootCause (read_prop e (str ''cause''))"
      using True by (subst rootCause.simps) simp
    note ih = 1 [OF True]
    from link ih [THEN conjunct1]
    have "rtranclp cause_link e (rootCause (read_prop e (str ''cause'')))"
      by (rule converse_rtranclp_into_rtranclp)
    with ih [THEN conjunct2] show ?thesis
      unfolding eq by (rule conjI [rotated])
  next
    case False
    then have eq: "rootCause e = e"
      by (subst rootCause.simps) auto
    from False show ?thesis
      unfolding eq by auto
  qed
qed

text \<open>An example: the walk stops in front of a bare \<^verbatim>\<open>Error\<close>, which lodash calls empty.\<close>

lemma rootCause_example:
  "rootCause
     (SfdxFalconError_new SfdxFalconErrorC None (JStr (str ''outer'')) JUndefined JUndefined
        (SfdxFalconError_new SfdxFalconErrorC None (JStr (str ''inner'')) JUndefined JUndefined
           (JObj ErrorC [(str ''message'', JStr (str ''boom''))]) JUndefined JUndefined)
        JUndefined JUndefined)
   = SfdxFalconError_new SfdxFalconErrorC None (JStr (str ''inner'')) JUndefined JUndefined
       (JObj ErrorC [(str ''message'', JStr (str ''boom''))]) JUndefined JUndefined"
  by code_simp

subsection \<open>Rendering\<close>

lemma get_prop_defined: "v \<noteq> JUndefined \<Longrightarrow> v \<noteq> JNull \<Longrightarrow> get_prop v k = Some (read_prop v k)"
  by (cases v) simp_all

lemma get_path2:
  "instanceof v ErrorC \<Longrightarrow> read_prop v a \<noteq> JUndefined \<Longrightarrow> read_prop v a \<noteq> JNull \<Longrightarrow>
   get_path v [a, b] = Some (read_prop (read_prop v a) b)"
  by (cases v) (simp_all add: get_prop_defined)

lemma printableE: "printable env v \<Longrightarrow> \<exists>t. ToString env v = Some t"
  by (simp add: printable_def)

text \<open>When each renderer throws: a conversion that it reaches fails, or the member
  that it reads from is missing.\<close>

lemma renderBaseDetail_throws:
  assumes "instanceof v ErrorC"
  shows "(renderBaseDetail env v opts = None) =
     (\<not> (list_all (\<lambda>k. printable env (read_prop v k))
             [str ''name'', str ''message'', str ''source'', str ''stack'']
           \<and> (truthy (read_prop v (str ''resultStack''))
                  \<and> isEmpty (read_prop v (str ''resultStack'')) = False
                \<longrightarrow> printable env (read_prop v (str ''resultStack'')))))"
proof -
  from assms have g: "get_prop v k = Some (read_prop v k)" for k
    by (cases v) simp_all
  show ?thesis
    unfolding renderBaseDetail_def
    by (simp only: g Option.bind_lunit, simp only: Let_def bind_eq_None_conv)
       (auto simp: printable_def)
qed

lemma detail_line_throws:
  "(detail_line env options shown title padding v renderOutput = None)
     = (shown \<and> \<not> printable env v)"
  by (auto simp: detail_line_def printable_def split: Option.bind_splits)

lemma action_lines_throws:
  "(action_lines env options actions renderOutput = None) =
     (case actions of JArr xs \<Rightarrow> \<not> list_all (printable env) xs | _ \<Rightarrow> False)"
proof (cases actions)
  case (JArr xs)
  have "(for_of (\<lambda>renderOutput action.
                   ToString env action \<bind>
                     (\<lambda>converted. Some (renderOutput @ [nl] @ style env (str ''green'') converted)))
            r xs = None) = (\<not> list_all (printable env) xs)" for r
    by (induction xs arbitrary: r) (auto simp: printable_def split: option.splits)
  with JArr show ?thesis by (simp add: action_lines_def)
qed (simp_all add: action_lines_def)

lemma missing_member:
  assumes "instanceof v ErrorC" and "read_prop v m = JUndefined \<or> read_prop v m = JNull"
  shows "get_path v [m, k] = None"
proof -
  from assms(1) have "get_prop v m = Some (read_prop v m)"
    by (cases v) simp_all
  moreover from assms(2) have "get_prop (read_prop v m) k = None"
    by auto
  ultimately show ?thesis
    by (simp only: get_path.simps option.case)
qed

lemma renderSfdxCliErrorDetail_throws:
  assumes "instanceof v ErrorC"
  shows "(renderSfdxCliErrorDetail env v opts = None) =
     (\<not> (read_prop v (str ''cliError'') \<noteq> JUndefined \<and> read_prop v (str ''cliError'') \<noteq> JNull
           \<and> list_all (\<lambda>k. isEmpty (read_prop (read_prop v (str ''cliError'')) k) = False
                            \<longrightarrow> printable env (read_prop (read_prop v (str ''cliError'')) k))
               [str ''name'', str ''message'', str ''status'']
           \<and> (case read_prop (read_prop v (str ''cliError'')) (str ''actions'') of
                 JArr xs \<Rightarrow> list_all (printable env) xs
               | _ \<Rightarrow> True)
           \<and> (isEmpty (read_prop (read_prop v (str ''cliError'')) (str ''stack'')) = False
                  \<and> 5 \<le> childInspectDepth opts
                \<longrightarrow> printable env (read_prop (read_prop v (str ''cliError'')) (str ''stack'')))))"
proof (cases "read_prop v (str ''cliError'') = JUndefined \<or> read_prop v (str ''cliError'') = JNull")
  case True
  have "renderSfdxCliErrorDetail env v opts = None"
    unfolding renderSfdxCliErrorDetail_def
    by (simp only: missing_member [OF assms True] Let_def Option.bind.simps)
  with True show ?thesis by auto
next
  case False
  with assms have g:
    "get_path v [str ''cliError'', k] = Some (read_prop (read_prop v (str ''cliError'')) k)" for k
    by (simp add: get_path2 del: get_path.simps)
  show ?thesis
    unfolding renderSfdxCliErrorDetail_def
    using False
    by (simp only: g Option.bind_lunit,
        simp only: Let_def bind_eq_None_conv detail_line_throws action_lines_throws)
       (cases "read_prop (read_prop v (str ''cliError'')) (str ''actions'')"; auto)
qed

lemma renderShellErrorDetail_throws:
  assumes "instanceof v ErrorC"
  shows "(renderShellErrorDetail env v opts = None) =
     (\<not> (read_prop v (str ''shellError'') \<noteq> JUndefined \<and> read_prop v (str ''shellError'') \<noteq> JNull
           \<and> list_all (\<lambda>k. isEmpty (read_prop (read_prop v (str ''shellError'')) k) = False
                            \<longrightarrow> printable env (read_prop (read_prop v (str ''shellError'')) k))
               [str ''command'', str ''signal'', str ''message'', str ''stderr'', str ''stdout'']
           \<and> (truthy (read_prop (read_prop v (str ''shellError'')) (str ''code''))
                \<longrightarrow> printable env (read_prop (read_prop v (str ''shellError'')) (str ''code'')))))"
proof (cases "read_prop v (str ''shellError'') = JUndefined \<or> read_prop v (str ''shellError'') = JNull")
  case True
  have "renderShellErrorDetail env v opts = None"
    unfolding renderShellErrorDetail_def
    by (simp only: missing_member [OF assms True] Let_def Option.bind.simps)
  with True show ?thesis by auto
next
  case False
  with assms have g:
    "get_path v [str ''shellError'', k] = Some (read_prop (read_prop v (str ''shellError'')) k)" for k
    by (simp add: get_path2 del: get_path.simps)
  show ?thesis
    unfolding renderShellErrorDetail_def
    using False
    by (simp only: g Option.bind_lunit,
        simp only: Let_def bind_eq_None_conv detail_line_throws)
       auto
qed

text \<open>
  C8, as amended. \<open>renderError\<close> returns a string and does not throw for every value
  that is not an \<^verbatim>\<open>Error\<close>, and for every \<^verbatim>\<open>Error\<close> that is renderable: an
  \<open>SfdxCliError\<close> has its \<open>cliError\<close> member and a \<open>ShellError\<close> its \<open>shellError\<close>
  member (neither \<^verbatim>\<open>undefined\<close> nor \<^verbatim>\<open>null\<close>), and every value that the renderers
  interpolate converts to a string. These are the \<open>name\<close>, \<open>message\<close>, \<open>source\<close> and
  \<open>stack\<close> of the error; its \<open>resultStack\<close> when that is truthy and not empty; of
  \<open>cliError\<close>, the \<open>name\<close>, \<open>message\<close> and \<open>status\<close> when not empty, each of the
  \<open>actions\<close>, and the \<open>stack\<close> when not empty and the depth for children is 5 or more;
  of \<open>shellError\<close>, the \<open>code\<close> when truthy and the \<open>command\<close>, \<open>signal\<close>, \<open>message\<close>,
  \<open>stderr\<close> and \<open>stdout\<close> when not empty. A field that is absent converts, as
  \<^verbatim>\<open>undefined\<close> does, and so do strings, numbers, booleans and \<^verbatim>\<open>null\<close>. The
  \<open>actions\<close>, \<open>detail\<close> and \<open>data\<close> of the error and the \<open>warnings\<close> and \<open>result\<close> of
  \<open>cliError\<close> may be anything: they are inspected, not converted. For every other value
  \<open>renderError\<close> throws: the condition is exact.
\<close>

theorem renderError_returns:
  "(\<exists>s. renderError env v childDepth detailDepth errorDepth = Some s) = renderable env childDepth v"
proof (cases "instanceof v ErrorC")
  case False
  then show ?thesis by (simp add: renderError_def renderable_def Let_def)
next
  case True
  define opts where
    "opts = \<lparr>headerColor = str ''yellow'', labelColor = str ''blue'', errorLabelColor = str ''red'',
             valueColor = str ''reset'',
             childInspectDepth = depth_or childDepth 2,
             detailInspectDepth = depth_or detailDepth 4,
             errorInspectDepth = depth_or errorDepth 1\<rparr>"
  have depth: "childInspectDepth opts = depth_or childDepth 2"
    by (simp add: opts_def)
  have "(renderError env v childDepth detailDepth errorDepth = None) =
          (renderBaseDetail env v opts = None
           \<or> (instanceof v SfdxCliErrorC \<and> renderSfdxCliErrorDetail env v opts = None)
           \<or> (instanceof v ShellErrorC \<and> renderShellErrorDetail env v opts = None))"
    unfolding renderError_def Let_def opts_def [symmetric]
    using True by (auto split: Option.bind_splits)
  then have "(renderError env v childDepth detailDepth errorDepth = None)
              = (\<not> renderable env childDepth v)"
    unfolding renderBaseDetail_throws [OF True] renderSfdxCliErrorDetail_throws [OF True]
      renderShellErrorDetail_throws [OF True] depth renderable_def
    using True by (simp only: simp_thms) blast
  then show ?thesis by auto
qed

text \<open>The theorem at an \<open>SfdxCliError\<close> whose \<open>cliError\<close> is an object with no field at
  all.\<close>

theorem renderError_returns_witness:
  "renderable example_env None
     (assign
        (SfdxFalconError_new SfdxCliErrorC None (JStr (str ''failed'')) (JStr (str ''SfdxCliError''))
           JUndefined JUndefined JUndefined JUndefined)
        (str ''cliError'') (JObj PlainObject []))
   \<and> instanceof
       (assign
          (SfdxFalconError_new SfdxCliErrorC None (JStr (str ''failed'')) (JStr (str ''SfdxCliError''))
             JUndefined JUndefined JUndefined JUndefined)
          (str ''cliError'') (JObj PlainObject [])) SfdxCliErrorC
   \<and> (\<exists>s. renderError example_env
             (assign
                (SfdxFalconError_new SfdxCliErrorC None (JStr (str ''failed''))
                   (JStr (str ''SfdxCliError'')) JUndefined JUndefined JUndefined JUndefined)
                (str ''cliError'') (JObj PlainObject [])) None None None = Some s)"
proof -
  let ?v = "assign
              (SfdxFalconError_new SfdxCliErrorC None (JStr (str ''failed''))
                 (JStr (str ''SfdxCliError'')) JUndefined JUndefined JUndefined JUndefined)
              (str ''cliError'') (JObj PlainObject [])"
  have r: "renderable example_env None ?v"
    by (simp add: renderable_def printable_def SfdxFalconError_new_def Let_def getters_def
          typeof_string_def js_or_def SfdxFalconErrorInfo_new_def depth_or_def)
  have i: "instanceof ?v SfdxCliErrorC"
    by (simp add: instanceof_assign instanceof_new)
  from renderError_returns [of example_env ?v None None None] r i show ?thesis by simp
qed

text \<open>
  The claim as first worded covers every input value. An \<open>SfdxCliError\<close> whose \<open>cliError\<close>
  member has been set to \<^verbatim>\<open>undefined\<close> is such a value, and rendering it throws a
  TypeError at \<^verbatim>\<open>errorToRender.cliError.name\<close>. An \<open>SfdxFalconError\<close> whose name is an
  object with an own property \<^verbatim>\<open>toString\<close> is another, and rendering it throws a
  TypeError when the template converts the name.
\<close>

theorem renderError_throws:
  "renderError example_env
     (assign
        (SfdxFalconError_new SfdxCliErrorC None (JStr (str ''failed'')) (JStr (str ''SfdxCliError''))
           JUndefined JUndefined JUndefined JUndefined)
        (str ''cliError'') JUndefined)
     None None None = None
   \<and> renderError example_env
       (SfdxFalconError_new SfdxFalconErrorC None (JStr (str ''failed''))
          (JObj PlainObject [(str ''toString'', JNum 1)])
          JUndefined JUndefined JUndefined JUndefined)
       None None None = None"
  by (simp add: renderError_def renderBaseDetail_def renderSfdxCliErrorDetail_def
        SfdxFalconError_new_def Let_def getters_def typeof_string_def js_or_def
        SfdxFalconErrorInfo_new_def depth_or_def enumerable_def)

text \<open>
  An \<open>SfdxCliError\<close> as its own constructor builds it can be one that does not render:
  the text \<^verbatim>\<open>{"status":1,"message":"m","actions":[{"toString":1}]}\<close> is JSON, the
  constructor copies the actions, and the renderer throws when it converts the action.
\<close>

lemma render_unprintable_action:
  "\<exists>e. SfdxCliError_new example_env None
          (str ''{\"status\":1,\"message\":\"m\",\"actions\":[{\"toString\":1}]}'')
          JUndefined JUndefined = Some e
      \<and> renderError example_env e None None None = None"
  by (simp add: SfdxCliError_new_def cliError_parsed_def example_env_def js_or_def
        renderError_def renderBaseDetail_def renderSfdxCliErrorDetail_def detail_line_def
        action_lines_def SfdxFalconError_new_def Let_def getters_def typeof_string_def
        SfdxFalconErrorInfo_new_def depth_or_def enumerable_def)

subsection \<open>The constructors of SfdxCliError and ShellError\<close>



lemma unparseable_message_printable:
  "printable env (read_prop (cliError_unparseable s) k)" if "k = str ''message''"
  using that by (simp add: cliError_unparseable_def printable_def)

text \<open>What the constructor returns, when it returns: an \<open>SfdxCliError\<close> that carries the
  \<open>cliError\<close> built by the \<^verbatim>\<open>try\<close> block or, if that threw, by the \<^verbatim>\<open>catch\<close> block.\<close>

lemma SfdxCliError_new_result:
  assumes "SfdxCliError_new env stk s m src = Some e"
  shows "instanceof e SfdxCliErrorC"
    and "k = str ''cliError'' \<Longrightarrow> read_prop e k =
           (case cliError_parsed env s of Some p \<Rightarrow> p | None \<Rightarrow> cliError_unparseable s)"
proof -
  define ce where
    "ce = (case cliError_parsed env s of Some p \<Rightarrow> p | None \<Rightarrow> cliError_unparseable s)"
  from assms obtain t1 t2 where e:
    "e = (if isEmpty (read_prop ce (str ''actions'')) = False
          then assign
                 (assign
                    (SfdxFalconError_new SfdxCliErrorC stk (JStr (t1 @ str ''. '' @ t2))
                       (JStr (str ''SfdxCliError'')) (if src = JUndefined then JStr [] else src)
                       JUndefined JUndefined JUndefined)
                    (str ''cliError'') ce)
                 (str ''actions'') (read_prop ce (str ''actions''))
          else assign
                 (SfdxFalconError_new SfdxCliErrorC stk (JStr (t1 @ str ''. '' @ t2))
                    (JStr (str ''SfdxCliError'')) (if src = JUndefined then JStr [] else src)
                    JUndefined JUndefined JUndefined)
                 (str ''cliError'') ce)"
    unfolding SfdxCliError_new_def Let_def ce_def [symmetric]
    by (auto split: Option.bind_splits)
  obtain ps where ps:
    "SfdxFalconError_new SfdxCliErrorC stk (JStr (t1 @ str ''. '' @ t2))
       (JStr (str ''SfdxCliError'')) (if src = JUndefined then JStr [] else src)
       JUndefined JUndefined JUndefined = JObj SfdxCliErrorC ps"
    using new_is_obj by blast
  show "instanceof e SfdxCliErrorC"
    unfolding e ps by simp
  show "read_prop e k = (case cliError_parsed env s of Some p \<Rightarrow> p | None \<Rightarrow> cliError_unparseable s)"
    if "k = str ''cliError''"
    unfolding e ps ce_def [symmetric] using that
    by (simp add: lookup_set_prop keys_set_prop getters_def)
qed

lemma SfdxCliError_new_throws:
  "(SfdxCliError_new env stk s m src = None) =
     (\<not> printable env m
      \<or> (\<exists>p. cliError_parsed env s = Some p \<and> \<not> printable env (read_prop p (str ''message''))))"
proof (cases "cliError_parsed env s")
  case None
  have "\<exists>t. ToString env (read_prop (cliError_unparseable s) (str ''message'')) = Some t"
    by (rule printableE) (rule unparseable_message_printable, rule refl)
  then obtain t where "ToString env (read_prop (cliError_unparseable s) (str ''message'')) = Some t" ..
  with None show ?thesis
    unfolding SfdxCliError_new_def Let_def printable_def
    by (cases "m = JUndefined") (auto split: Option.bind_splits)
next
  case (Some p)
  then show ?thesis
    unfolding SfdxCliError_new_def Let_def printable_def
    by (cases "m = JUndefined") (auto split: Option.bind_splits)
qed




lemma indexOf_none: "c \<notin> set s \<Longrightarrow> indexOf s c = - 1"
  by (induction s) auto

lemma indexOf_some: "c \<in> set s \<Longrightarrow> indexOf s c = int (length (takeWhile (\<lambda>x. x \<noteq> c) s))"
  by (induction s) auto

lemma first_line: "substr s 0 (indexOf s nl) = before_newline s"
proof (cases "nl \<in> set s")
  case True
  have tw: "take (length (takeWhile (\<lambda>x. x \<noteq> nl) s)) s = takeWhile (\<lambda>x. x \<noteq> nl) s"
    by (rule takeWhile_eq_take [symmetric])
  show ?thesis
  proof (cases "takeWhile (\<lambda>x. x \<noteq> nl) s = []")
    case e: True
    with True show ?thesis by (simp add: substr_def before_newline_def indexOf_some)
  next
    case False
    with True tw show ?thesis by (simp add: substr_def before_newline_def indexOf_some)
  qed
next
  case False
  then show ?thesis by (simp add: substr_def before_newline_def indexOf_none)
qed

lemma string_truthy: "(typeof_string v \<and> truthy v) = (typeof_string v \<and> v \<noteq> JStr [])"
  by (cases v) (simp_all add: typeof_string_def)

lemma buffer_or_null:
  "(typeof_string (if v = JUndefined then JNull else v) \<and> (if v = JUndefined then JNull else v) \<noteq> JStr [])
     = (typeof_string v \<and> v \<noteq> JStr [])"
  "typeof_string v \<Longrightarrow> str_of (if v = JUndefined then JNull else v) = str_of v"
  by (cases v; simp add: typeof_string_def)+

lemma default_message_eq:
  "default_message env code signal err (if out = JUndefined then JNull else out) =
     (if typeof_string err \<and> err \<noteq> JStr [] then Some (JStr (before_newline (str_of err)))
      else if typeof_string out \<and> out \<noteq> JStr [] then Some (JStr (before_newline (str_of out)))
      else case ToString env code of
             None \<Rightarrow> None
           | Some c \<Rightarrow>
               (case ToString env signal of
                  None \<Rightarrow> None
                | Some g \<Rightarrow>
                    Some (JStr (str ''Unknown Shell Error (code='' @ c @ str '', signal='' @ g
                                  @ str '')''))))"
  by (simp add: default_message_def first_line string_truthy buffer_or_null
        split: option.splits)

lemma default_message_is_string:
  "default_message env code signal err out = Some msg \<Longrightarrow> \<exists>t. msg = JStr t"
  by (auto simp: default_message_def split: if_splits Option.bind_splits)

lemma ShellError_new_default:
  "ShellError_new env stk cmd code signal err out source JUndefined =
     (case default_message env code signal err (if out = JUndefined then JNull else out) of
        None \<Rightarrow> None
      | Some msg \<Rightarrow>
          Some (assign
                  (SfdxFalconError_new ShellErrorC stk msg (JStr (str ''ShellError''))
                     (if source = JUndefined then JStr [] else source)
                     JUndefined JUndefined JUndefined)
                  (str ''shellError'')
                  (JObj PlainObject
                     [(str ''command'', cmd), (str ''code'', code), (str ''signal'', signal),
                      (str ''stdout'', if out = JUndefined then JNull else out),
                      (str ''stderr'', err), (str ''message'', msg)])))"
proof (cases "default_message env code signal err (if out = JUndefined then JNull else out)")
  case None
  then show ?thesis by (simp add: ShellError_new_def Let_def)
next
  case (Some msg)
  with default_message_is_string [OF Some] show ?thesis
    by (auto simp: ShellError_new_def Let_def)
qed

lemma ShellError_message:
  "map_option (\<lambda>e. read_prop e (str ''message''))
     (ShellError_new env stk cmd code signal err out source JUndefined)
   = default_message env code signal err (if out = JUndefined then JNull else out)"
  "Option.bind (ShellError_new env stk cmd code signal err out source JUndefined)
     (\<lambda>e. get_path e [str ''shellError'', str ''message''])
   = default_message env code signal err (if out = JUndefined then JNull else out)"
proof -
  show "map_option (\<lambda>e. read_prop e (str ''message''))
     (ShellError_new env stk cmd code signal err out source JUndefined)
   = default_message env code signal err (if out = JUndefined then JNull else out)"
  proof (cases "default_message env code signal err (if out = JUndefined then JNull else out)")
    case None
    then show ?thesis by (simp add: ShellError_new_default)
  next
    case (Some msg)
    with default_message_is_string [OF Some] show ?thesis
      by (cases stk)
         (auto simp: ShellError_new_default SfdxFalconError_new_def Let_def getters_def
            typeof_string_def)
  qed
  show "Option.bind (ShellError_new env stk cmd code signal err out source JUndefined)
     (\<lambda>e. get_path e [str ''shellError'', str ''message''])
   = default_message env code signal err (if out = JUndefined then JNull else out)"
  proof (cases "default_message env code signal err (if out = JUndefined then JNull else out)")
    case None
    then show ?thesis by (simp add: ShellError_new_default)
  next
    case (Some msg)
    with default_message_is_string [OF Some] show ?thesis
      by (cases stk)
         (auto simp: ShellError_new_default SfdxFalconError_new_def Let_def getters_def
            typeof_string_def)
  qed
qed

text \<open>
  C10. Without an explicit message, the message of a \<open>ShellError\<close> is the text of
  \<open>stdErrBuffer\<close> before its first newline when \<open>stdErrBuffer\<close> is a non-empty string,
  which is the empty text when it has no newline; otherwise the text of \<open>stdOutBuffer\<close>
  before its first newline when that is a non-empty string; otherwise
  \<^verbatim>\<open>Unknown Shell Error (code=<code>, signal=<signal>)\<close>, with the code and the signal
  converted to strings as a template literal converts them. The same message is stored
  at \<open>shellError.message\<close>. The constructor returns in the first two cases, and in the
  third unless the code or the signal does not convert to a string, which a number, a
  string and \<^verbatim>\<open>null\<close> always do.
\<close>

theorem ShellError_default_message:
  "map_option (\<lambda>e. read_prop e (str ''message''))
     (ShellError_new env stk cmd code signal err out source JUndefined)
   = (if typeof_string err \<and> err \<noteq> JStr [] then Some (JStr (before_newline (str_of err)))
      else if typeof_string out \<and> out \<noteq> JStr [] then Some (JStr (before_newline (str_of out)))
      else case ToString env code of
             None \<Rightarrow> None
           | Some c \<Rightarrow>
               (case ToString env signal of
                  None \<Rightarrow> None
                | Some g \<Rightarrow>
                    Some (JStr (str ''Unknown Shell Error (code='' @ c @ str '', signal='' @ g
                                  @ str '')''))))
   \<and> Option.bind (ShellError_new env stk cmd code signal err out source JUndefined)
       (\<lambda>e. get_path e [str ''shellError'', str ''message''])
     = map_option (\<lambda>e. read_prop e (str ''message''))
         (ShellError_new env stk cmd code signal err out source JUndefined)"
  by (simp only: ShellError_message default_message_eq simp_thms)

text \<open>Two examples: a standard error of one line without a newline gives the empty
  message, and a process killed by a signal, silent on both streams, gives the default.\<close>

lemma ShellError_message_examples:
  "map_option (\<lambda>e. read_prop e (str ''message''))
     (ShellError_new example_env None (JStr (str ''sfdx x'')) (JNum 1) JNull
        (JStr (str ''sfdx: not found'')) (JStr []) JUndefined JUndefined) = Some (JStr [])
   \<and> map_option (\<lambda>e. read_prop e (str ''message''))
       (ShellError_new example_env None (JStr (str ''sfdx x'')) JNull (JStr (str ''SIGKILL''))
          (JStr []) (JStr []) JUndefined JUndefined)
       = Some (JStr (str ''Unknown Shell Error (code=null, signal=SIGKILL)''))"
  unfolding ShellError_message
  by (simp add: default_message_def typeof_string_def str_of_def substr_def)

section \<open>Properties of the executor and of the action\<close>

lemma foldl_append_concat: "foldl (@) acc xs = acc @ concat xs"
  by (induction xs arbitrary: acc) simp_all

text \<open>The code and the signal of a \<^verbatim>\<open>close\<close> event convert to strings, so the
  \<open>ShellError\<close> that the handler builds is always built.\<close>

lemma ShellError_of_close:
  "\<exists>e. ShellError_new env stk cmd (number_or_null code) (string_or_null signal) err out src
          JUndefined = Some e
      \<and> instanceof e ShellErrorC"
proof -
  have "default_message env (number_or_null code) (string_or_null signal) err
          (if out = JUndefined then JNull else out) \<noteq> None"
    by (cases code; cases signal)
       (simp_all add: default_message_def number_or_null_def string_or_null_def)
  then obtain msg where
    "default_message env (number_or_null code) (string_or_null signal) err
       (if out = JUndefined then JNull else out) = Some msg" by auto
  then show ?thesis
    by (simp add: ShellError_new_default instanceof_assign instanceof_new)
qed

lemma executor_success:
  assumes "parseSfdxCommand env d = Some cmd" and "close_code child = Some 0"
  shows "\<exists>r. executeSfdxCommand env stk d child = Resolved r \<and> status r = SUCCESS"
  using assms
  by (simp add: executeSfdxCommand_def on_close_def Let_def success_def set_status_def
        SfdxFalconResult_new_def finished_def number_or_null_def)

lemma executor_failure:
  assumes "parseSfdxCommand env d = Some cmd" and "close_code child \<noteq> Some 0"
    and "detectSalesforceCliError env (concat (stdout_data child))"
    and "SfdxCliError_new env stk (concat (stdout_data child)) (JStr (errorMsg d))
           (JStr (str ''EXECUTOR:sfdx:executeSfdxCommand'')) = Some e"
  shows "\<exists>r. executeSfdxCommand env stk d child = Resolved r \<and> status r = FAILURE
          \<and> detail r = ErrorDetail e"
  using assms
  by (cases "close_code child")
     (simp_all add: executeSfdxCommand_def on_close_def Let_def failure_def set_status_def
        SfdxFalconResult_new_def finished_def foldl_append_concat number_or_null_def)

lemma executor_pending:
  assumes "parseSfdxCommand env d = Some cmd" and "close_code child \<noteq> Some 0"
    and "detectSalesforceCliError env (concat (stdout_data child))"
    and "SfdxCliError_new env stk (concat (stdout_data child)) (JStr (errorMsg d))
           (JStr (str ''EXECUTOR:sfdx:executeSfdxCommand'')) = None"
  shows "executeSfdxCommand env stk d child = Pending"
  using assms
  by (cases "close_code child")
     (simp_all add: executeSfdxCommand_def on_close_def Let_def foldl_append_concat
        number_or_null_def)

lemma executor_error:
  assumes "parseSfdxCommand env d = Some cmd" and "close_code child \<noteq> Some 0"
    and "\<not> detectSalesforceCliError env (concat (stdout_data child))"
  shows "\<exists>r e. executeSfdxCommand env stk d child = Rejected (WithResult r) \<and> status r = ERROR
          \<and> detail r = ErrorDetail e \<and> instanceof e ShellErrorC"
proof -
  from ShellError_of_close
  obtain e where e:
    "ShellError_new env stk (JStr cmd) (number_or_null (close_code child))
       (string_or_null (close_signal child)) (JStr (concat (stderr_data child)))
       (JStr (concat (stdout_data child))) (JStr (str ''EXECUTOR:sfdx:executeSfdxCommand''))
       JUndefined = Some e"
    and i: "instanceof e ShellErrorC" by blast
  from assms(1,3) have
    "executeSfdxCommand env stk d child =
       (if number_or_null (close_code child) \<noteq> JNum 0
        then Rejected (WithResult
               \<lparr>result_name = str ''sfdx:executeSfdxCommand'', rtype = EXECUTOR, status = ERROR,
                detail = ErrorDetail e\<rparr>)
        else executeSfdxCommand env stk d child)"
    unfolding executeSfdxCommand_def on_close_def Let_def foldl_append_concat
    using e
    by (simp add: error_def set_status_def SfdxFalconResult_new_def finished_def)
  moreover from assms(2) have "number_or_null (close_code child) \<noteq> JNum 0"
    by (cases "close_code child") (simp_all add: number_or_null_def)
  ultimately show ?thesis using i by simp
qed

lemma executor_compile_error:
  "parseSfdxCommand env d = None \<Longrightarrow> executeSfdxCommand env stk d child = Rejected WithTypeError"
  by (simp add: executeSfdxCommand_def Let_def)

text \<open>
  C1, as amended. When the compile step throws, the promise of \<open>executeSfdxCommand\<close> is
  rejected with the TypeError, whatever the child process would do. For every command
  definition that compiles and every outcome of the child process, the promise is
  settled three ways: exit code 0 resolves with a Result of status SUCCESS; another exit
  code (or none) with a standard output recognized as an error of the Salesforce CLI
  resolves with a Result of status FAILURE whose detail is the \<open>SfdxCliError\<close> built from
  that output, unless the constructor of \<open>SfdxCliError\<close> throws, and then the promise
  stays pending; another exit code with a standard output not recognized rejects with a
  Result of status ERROR whose detail is a \<open>ShellError\<close>. The promise is rejected with a
  Result in that last case only.
\<close>

theorem executeSfdxCommand_law:
  "(parseSfdxCommand env d = None \<longrightarrow>
      executeSfdxCommand env stk d child = Rejected WithTypeError)
   \<and> (parseSfdxCommand env d \<noteq> None \<longrightarrow>
        (if close_code child = Some 0
         then (\<exists>r. executeSfdxCommand env stk d child = Resolved r \<and> status r = SUCCESS)
         else if detectSalesforceCliError env (concat (stdout_data child))
         then (case SfdxCliError_new env stk (concat (stdout_data child)) (JStr (errorMsg d))
                      (JStr (str ''EXECUTOR:sfdx:executeSfdxCommand'')) of
                 None \<Rightarrow> executeSfdxCommand env stk d child = Pending
               | Some e \<Rightarrow>
                   (\<exists>r. executeSfdxCommand env stk d child = Resolved r \<and> status r = FAILURE
                      \<and> detail r = ErrorDetail e \<and> instanceof e SfdxCliErrorC))
         else (\<exists>r e. executeSfdxCommand env stk d child = Rejected (WithResult r)
                 \<and> status r = ERROR \<and> detail r = ErrorDetail e \<and> instanceof e ShellErrorC))
        \<and> ((\<exists>r. executeSfdxCommand env stk d child = Rejected (WithResult r))
             = (close_code child \<noteq> Some 0
                \<and> \<not> detectSalesforceCliError env (concat (stdout_data child)))))"
proof (rule conjI; rule impI)
  assume "parseSfdxCommand env d = None"
  then show "executeSfdxCommand env stk d child = Rejected WithTypeError"
    by (rule executor_compile_error)
next
  assume "parseSfdxCommand env d \<noteq> None"
  then obtain cmd where cmd: "parseSfdxCommand env d = Some cmd" by auto
  show "(if close_code child = Some 0
         then (\<exists>r. executeSfdxCommand env stk d child = Resolved r \<and> status r = SUCCESS)
         else if detectSalesforceCliError env (concat (stdout_data child))
         then (case SfdxCliError_new env stk (concat (stdout_data child)) (JStr (errorMsg d))
                      (JStr (str ''EXECUTOR:sfdx:executeSfdxCommand'')) of
                 None \<Rightarrow> executeSfdxCommand env stk d child = Pending
               | Some e \<Rightarrow>
                   (\<exists>r. executeSfdxCommand env stk d child = Resolved r \<and> status r = FAILURE
                      \<and> detail r = ErrorDetail e \<and> instanceof e SfdxCliErrorC))
         else (\<exists>r e. executeSfdxCommand env stk d child = Rejected (WithResult r)
                 \<and> status r = ERROR \<and> detail r = ErrorDetail e \<and> instanceof e ShellErrorC))
        \<and> ((\<exists>r. executeSfdxCommand env stk d child = Rejected (WithResult r))
             = (close_code child \<noteq> Some 0
                \<and> \<not> detectSalesforceCliError env (concat (stdout_data child))))"
  proof (cases "close_code child = Some 0")
    case True
    with executor_success [OF cmd True, of stk] show ?thesis by auto
  next
    case nz: False
    show ?thesis
    proof (cases "detectSalesforceCliError env (concat (stdout_data child))")
      case False
      with nz executor_error [OF cmd nz False, of stk] show ?thesis by auto
    next
      case True
      show ?thesis
      proof (cases "SfdxCliError_new env stk (concat (stdout_data child)) (JStr (errorMsg d))
                      (JStr (str ''EXECUTOR:sfdx:executeSfdxCommand''))")
        case None
        with nz True executor_pending [OF cmd nz True None] show ?thesis by simp
      next
        case (Some e)
        with nz True executor_failure [OF cmd nz True Some]
          SfdxCliError_new_result(1) [OF Some]
        show ?thesis by auto
      qed
    qed
  qed
qed

text \<open>The theorem at the second end-to-end scenario of the specification: the command
  compiles, the exit code is 1 and the standard output is a JSON error.\<close>

theorem executeSfdxCommand_law_witness:
  "parseSfdxCommand example_env
     \<lparr>command = str ''force:org:delete'', progressMsg = [], errorMsg = str ''failed'',
      successMsg = [], commandArgs = [],
      commandFlags = JObj PlainObject [(str ''FLAG_JSON'', JBool True)], observer = JNull\<rparr>
     = Some (str ''sfdx force:org:delete --json'')
   \<and> (\<exists>r e. executeSfdxCommand example_env None
        \<lparr>command = str ''force:org:delete'', progressMsg = [], errorMsg = str ''failed'',
         successMsg = [], commandArgs = [],
         commandFlags = JObj PlainObject [(str ''FLAG_JSON'', JBool True)], observer = JNull\<rparr>
        \<lparr>stdout_data = [str ''{\"status\":1,\"name\":\"ScratchOrgNotFound\",\"message\":\"no such org\"}''],
         stderr_data = [], close_code = Some 1, close_signal = None\<rparr> = Resolved r
       \<and> status r = FAILURE \<and> detail r = ErrorDetail e \<and> instanceof e SfdxCliErrorC
       \<and> read_prop e (str ''message'') = JStr (str ''failed. no such org''))"
proof -
  let ?d = "\<lparr>command = str ''force:org:delete'', progressMsg = [], errorMsg = str ''failed'',
             successMsg = [], commandArgs = [],
             commandFlags = JObj PlainObject [(str ''FLAG_JSON'', JBool True)], observer = JNull\<rparr>"
  let ?child = "\<lparr>stdout_data = [str ''{\"status\":1,\"name\":\"ScratchOrgNotFound\",\"message\":\"no such org\"}''],
                 stderr_data = [], close_code = Some 1, close_signal = None\<rparr>"
  have p: "parseSfdxCommand example_env ?d = Some (str ''sfdx force:org:delete --json'')"
    by (simp add: parseSfdxCommand_def add_flag_def sanitizeFlag_def enumerable_def
          example_env_def example_lower_def example_upper_def trim_def is_ws_def white_space_def
          flag_char_def is_upper_def is_lower_def is_digit_def is_boolean_def)
  have c: "\<exists>e. SfdxCliError_new example_env None (concat (stdout_data ?child))
             (JStr (errorMsg ?d)) (JStr (str ''EXECUTOR:sfdx:executeSfdxCommand'')) = Some e
           \<and> read_prop e (str ''message'') = JStr (str ''failed. no such org'')"
    by (simp add: SfdxCliError_new_def cliError_parsed_def example_env_def Let_def js_or_def
          SfdxFalconError_new_def typeof_string_def getters_def)
  have o: "close_code ?child \<noteq> Some 0
           \<and> detectSalesforceCliError example_env (concat (stdout_data ?child))"
    by (simp add: example_env_def)
  from executeSfdxCommand_law [of example_env ?d None ?child] p c o
  show ?thesis by auto
qed

text \<open>
  The claim as first worded covers every command definition, and has the promise
  rejected in the third case only. A flag whose value has an own property \<^verbatim>\<open>toString\<close>
  makes the compile step throw, and so does a \<open>commandFlags\<close> that is \<^verbatim>\<open>undefined\<close>: the
  promise is rejected with a TypeError, for a child process that would have ended with
  exit code 0.
\<close>

theorem executeSfdxCommand_rejects_TypeError:
  "executeSfdxCommand example_env None
     \<lparr>command = str ''force:org:list'', progressMsg = [], errorMsg = [], successMsg = [],
      commandArgs = [],
      commandFlags = JObj PlainObject
                       [(str ''FLAG_A'', JObj PlainObject [(str ''toString'', JNum 1)])],
      observer = JNull\<rparr>
     \<lparr>stdout_data = [], stderr_data = [], close_code = Some 0, close_signal = None\<rparr>
     = Rejected WithTypeError
   \<and> executeSfdxCommand example_env None
       \<lparr>command = str ''force:org:list'', progressMsg = [], errorMsg = [], successMsg = [],
        commandArgs = [], commandFlags = JUndefined, observer = JNull\<rparr>
       \<lparr>stdout_data = [], stderr_data = [], close_code = Some 0, close_signal = None\<rparr>
       = Rejected WithTypeError"
  by (simp add: executeSfdxCommand_def parseSfdxCommand_def add_flag_def sanitizeFlag_def
        sanitizeArgument_def enumerable_def example_env_def example_lower_def example_upper_def
        trim_def is_ws_def white_space_def flag_char_def is_upper_def is_lower_def is_digit_def
        is_boolean_def Let_def)

text \<open>And a JSON error whose message has an own property \<^verbatim>\<open>toString\<close> makes the
  handler of the \<^verbatim>\<open>close\<close> event throw: the promise stays pending.\<close>

lemma executeSfdxCommand_pending_example:
  "executeSfdxCommand example_env None
     \<lparr>command = str ''force:org:list'', progressMsg = [], errorMsg = [], successMsg = [],
      commandArgs = [], commandFlags = JObj PlainObject [], observer = JNull\<rparr>
     \<lparr>stdout_data = [str ''{\"message\":{\"toString\":1}}''], stderr_data = [],
      close_code = Some 1, close_signal = None\<rparr>
     = Pending"
  by (simp add: executeSfdxCommand_def on_close_def parseSfdxCommand_def enumerable_def
        SfdxCliError_new_def cliError_parsed_def example_env_def Let_def js_or_def
        number_or_null_def)

text \<open>
  C5. When the Executor call of the delete-scratch-org Action yields a FAILURE Result,
  the response of the Action has status SUCCESS, and the FAILURE Result is kept in it as
  it came: the failure of the child is not passed on.
\<close>

theorem executeAction_suppresses_failure:
  "delete_commandDef env actionContext scratchOrgAlias = Some commandDef \<Longrightarrow>
   executeSfdxCommand env stk commandDef child = Resolved r \<Longrightarrow>
   status r = FAILURE \<Longrightarrow>
   \<exists>a. executeAction env stk actionContext scratchOrgAlias child actionResponse = Returned a
       \<and> action_status a = SUCCESS
       \<and> execResponses a = execResponses actionResponse @ [FromExecutor r]"
  by (simp add: executeAction_def execSuccess_def)

text \<open>The theorem at the deletion of a scratch org that does not exist.\<close>

theorem executeAction_suppresses_failure_witness:
  "\<exists>commandDef r.
      delete_commandDef example_env
        \<lparr>targetOrg_alias = JStr (str ''dev''), devHubAlias = JStr (str ''hub''),
         logLevel = JStr (str ''error''), listrExecOptions_observer = JNull\<rparr> (JStr (str ''dev''))
        = Some commandDef
      \<and> executeSfdxCommand example_env None commandDef
          \<lparr>stdout_data = [str ''{\"status\":1,\"name\":\"ScratchOrgNotFound\",\"message\":\"no such org\"}''],
           stderr_data = [], close_code = Some 1, close_signal = None\<rparr> = Resolved r
      \<and> status r = FAILURE
      \<and> (\<exists>a. executeAction example_env None
             \<lparr>targetOrg_alias = JStr (str ''dev''), devHubAlias = JStr (str ''hub''),
              logLevel = JStr (str ''error''), listrExecOptions_observer = JNull\<rparr>
             (JStr (str ''dev''))
             \<lparr>stdout_data = [str ''{\"status\":1,\"name\":\"ScratchOrgNotFound\",\"message\":\"no such org\"}''],
              stderr_data = [], close_code = Some 1, close_signal = None\<rparr>
             \<lparr>action_status = RUNNING, execResponses = []\<rparr> = Returned a
           \<and> action_status a = SUCCESS
           \<and> execResponses a = [FromExecutor r])"
proof -
  let ?ctx = "\<lparr>targetOrg_alias = JStr (str ''dev''), devHubAlias = JStr (str ''hub''),
               logLevel = JStr (str ''error''), listrExecOptions_observer = JNull\<rparr>"
  let ?child = "\<lparr>stdout_data = [str ''{\"status\":1,\"name\":\"ScratchOrgNotFound\",\"message\":\"no such org\"}''],
                 stderr_data = [], close_code = Some 1, close_signal = None\<rparr>"
  obtain d where d: "delete_commandDef example_env ?ctx (JStr (str ''dev'')) = Some d"
    by (simp add: delete_commandDef_def)
  then have flags: "commandArgs d = []"
    "commandFlags d = JObj PlainObject
       [(str ''FLAG_TARGETUSERNAME'', JStr (str ''dev'')),
        (str ''FLAG_TARGETDEVHUBUSERNAME'', JStr (str ''hub'')),
        (str ''FLAG_NOPROMPT'', JBool True),
        (str ''FLAG_JSON'', JBool True),
        (str ''FLAG_LOGLEVEL'', JStr (str ''error''))]"
    by (auto simp: delete_commandDef_def)
  have "\<exists>cmd. parseSfdxCommand example_env d = Some cmd"
    by (rule parseSfdxCommand_returns [where es = "enumerable PlainObject
              [(str ''FLAG_TARGETUSERNAME'', JStr (str ''dev'')),
               (str ''FLAG_TARGETDEVHUBUSERNAME'', JStr (str ''hub'')),
               (str ''FLAG_NOPROMPT'', JBool True),
               (str ''FLAG_JSON'', JBool True),
               (str ''FLAG_LOGLEVEL'', JStr (str ''error''))]"])
       (simp_all add: flags enumerable_def printable_def)
  then obtain cmd where cmd: "parseSfdxCommand example_env d = Some cmd" ..
  have nz: "close_code ?child \<noteq> Some 0" by simp
  have det: "detectSalesforceCliError example_env (concat (stdout_data ?child))"
    by (simp add: example_env_def)
  have "SfdxCliError_new example_env None (concat (stdout_data ?child)) (JStr (errorMsg d))
          (JStr (str ''EXECUTOR:sfdx:executeSfdxCommand'')) \<noteq> None"
    by (simp add: SfdxCliError_new_throws printable_def cliError_parsed_def example_env_def
          js_or_def)
  then obtain e where e:
    "SfdxCliError_new example_env None (concat (stdout_data ?child)) (JStr (errorMsg d))
       (JStr (str ''EXECUTOR:sfdx:executeSfdxCommand'')) = Some e" by auto
  from executor_failure [OF cmd nz det e]
  obtain r where
    r: "executeSfdxCommand example_env None d ?child = Resolved r"
    and s: "status r = FAILURE" by blast
  from executeAction_suppresses_failure
         [OF d r s, of "\<lparr>action_status = RUNNING, execResponses = []\<rparr>"]
  show ?thesis using d r s by auto
qed

text \<open>When the promise of the executor is rejected, with a Result or with a TypeError,
  the \<^verbatim>\<open>catch\<close> handler of the action records a response of its own and the Action is a
  SUCCESS as well.\<close>

lemma executeAction_suppresses_rejection:
  "delete_commandDef env actionContext scratchOrgAlias = Some commandDef \<Longrightarrow>
   executeSfdxCommand env stk commandDef child = Rejected x \<Longrightarrow>
   \<exists>a. executeAction env stk actionContext scratchOrgAlias child actionResponse = Returned a
       \<and> action_status a = SUCCESS"
  by (simp add: executeAction_def execSuccess_def)

end
